theory Spec2Isabelle
  imports Complex_Main "HOL-Library.AList"
begin

section \<open>LTICircuit (bag/data/lti.py): data model\<close>

text \<open>
  The class \<^verbatim>\<open>LTICircuit\<close> keeps four attributes: the node count \<^verbatim>\<open>_n\<close>, the two
  accumulators \<^verbatim>\<open>_gmat_data\<close> and \<^verbatim>\<open>_cmat_data\<close> (plain Python \<^verbatim>\<open>dict\<close>s keyed by
  \<^verbatim>\<open>(row, col)\<close> tuples) and the node registry \<^verbatim>\<open>_node_id\<close> (a \<^verbatim>\<open>dict\<close> from net name
  to index). Python floats are modelled as \<^typ>\<open>real\<close> (rounding is not modelled),
  Python ints as \<^typ>\<open>int\<close>. A dict that is iterated (\<^verbatim>\<open>table.items()\<close>) is an
  association list in insertion order; the registry, which is only looked up, is a map.
\<close>

type_synonym key = "int \<times> int"
type_synonym table = "(key \<times> real) list"

record circuit =
  self_n :: int
  self_gmat_data :: table
  self_cmat_data :: table
  self_node_id :: "string \<rightharpoonup> int"

text \<open>
  Exceptions are values. \<open>KeyError\<close> is raised by a missing \<^verbatim>\<open>(row, col)\<close> key of an
  accumulator, \<open>KeyError_name\<close> by a missing string key (node registry, \<^verbatim>\<open>tran_info\<close>).
  \<open>TypeError\<close> and \<open>NotImplementedError\<close> are raised by library routines that are handed
  a sparse matrix where they take dense arrays only.
\<close>

datatype error =
    KeyError key
  | KeyError_name string
  | ZeroDivisionError
  | ValueError string
  | RuntimeError string
  | IndexError
  | TypeError
  | NotImplementedError

text \<open>A method that mutates \<^verbatim>\<open>self\<close> returns its outcome and the state it leaves behind;
  an exception does not roll the mutations made before it back.\<close>

type_synonym 'a outcome = "(error + 'a) \<times> circuit"

definition LTICircuit_init :: circuit where
  "LTICircuit_init =
     \<lparr>self_n = 0, self_gmat_data = [], self_cmat_data = [],
      self_node_id = [''gnd'' \<mapsto> -1, ''vss'' \<mapsto> -1, ''vdd'' \<mapsto> -1]\<rparr>"

definition get_node_id :: "string \<Rightarrow> circuit \<Rightarrow> int \<times> circuit" where
  "get_node_id name self =
     (case self_node_id self name of
        None \<Rightarrow>
          (let ans = self_n self
           in (ans, self\<lparr>self_node_id := (self_node_id self)(name \<mapsto> ans),
                          self_n := self_n self + 1\<rparr>))
      | Some i \<Rightarrow> (i, self))"

subsection \<open>Stamping\<close>

text \<open>
  \<^verbatim>\<open>d[key] += val\<close> on a plain \<^verbatim>\<open>dict\<close> first reads \<^verbatim>\<open>d[key]\<close>, which raises
  \<^verbatim>\<open>KeyError\<close> when the key is absent, and then stores the sum under the same key.
  \<open>stamp\<close> runs a sequence of such statements in order: the first missing key raises
  and the statements before it have already taken effect.
\<close>

fun stamp :: "(key \<times> real) list \<Rightarrow> table \<Rightarrow> (error + unit) \<times> table" where
  "stamp [] t = (Inr (), t)"
| "stamp ((k, v) # kvs) t =
     (case map_of t k of
        None \<Rightarrow> (Inl (KeyError k), t)
      | Some x \<Rightarrow> stamp kvs (AList.update k (x + v) t))"

definition add_res :: "real \<Rightarrow> string \<Rightarrow> string \<Rightarrow> circuit \<Rightarrow> unit outcome" where
  "add_res res p_name n_name self0 =
     (let (node_p0, self1) = get_node_id p_name self0;
          (node_n0, self) = get_node_id n_name self1
      in if node_p0 = node_n0 then (Inr (), self)
         else
           let (node_p, node_n) =
                 (if node_p0 < node_n0 then (node_n0, node_p0) else (node_p0, node_n0))
           in if res = 0 then (Inl ZeroDivisionError, self)
              else
                let g = 1 / res;
                    (r, gmat) =
                      stamp ([((node_p, node_p), g)] @
                             (if node_n \<ge> 0
                              then [((node_p, node_n), - g), ((node_n, node_n), g),
                                    ((node_n, node_p), - g)]
                              else []))
                        (self_gmat_data self)
                in (r, self\<lparr>self_gmat_data := gmat\<rparr>))"

definition add_gm ::
  "real \<Rightarrow> string \<Rightarrow> string \<Rightarrow> string \<Rightarrow> string \<Rightarrow> circuit \<Rightarrow> unit outcome" where
  "add_gm gm p_name n_name cp_name cn_name self0 =
     (let (node_p, self1) = get_node_id p_name self0;
          (node_n, self2) = get_node_id n_name self1;
          (node_cp, self3) = get_node_id cp_name self2;
          (node_cn, self) = get_node_id cn_name self3
      in if node_p = node_n \<or> node_cp = node_cn then (Inr (), self)
         else
           let (r, gmat) =
                 stamp ((if node_cp \<ge> 0
                         then (if node_p \<ge> 0 then [((node_p, node_cp), gm)] else []) @
                              (if node_n \<ge> 0 then [((node_n, node_cp), - gm)] else [])
                         else []) @
                        (if node_cn \<ge> 0
                         then (if node_p \<ge> 0 then [((node_p, node_cn), - gm)] else []) @
                              (if node_n \<ge> 0 then [((node_n, node_cn), gm)] else [])
                         else []))
                   (self_gmat_data self)
           in (r, self\<lparr>self_gmat_data := gmat\<rparr>))"

definition add_cap :: "real \<Rightarrow> string \<Rightarrow> string \<Rightarrow> circuit \<Rightarrow> unit outcome" where
  "add_cap cap p_name n_name self0 =
     (let (node_p0, self1) = get_node_id p_name self0;
          (node_n0, self) = get_node_id n_name self1
      in if node_p0 = node_n0 then (Inr (), self)
         else
           let (node_p, node_n) =
                 (if node_p0 < node_n0 then (node_n0, node_p0) else (node_p0, node_n0));
               (r, cmat) =
                 stamp ([((node_p, node_p), cap)] @
                        (if node_n \<ge> 0
                         then [((node_p, node_n), - cap), ((node_n, node_n), cap),
                               ((node_n, node_p), - cap)]
                         else []))
                   (self_cmat_data self)
           in (r, self\<lparr>self_cmat_data := cmat\<rparr>))"


subsection \<open>The composite transistor\<close>

definition bindE :: "error + 'a \<Rightarrow> ('a \<Rightarrow> error + 'b) \<Rightarrow> error + 'b" where
  "bindE m f = (case m of Inl e \<Rightarrow> Inl e | Inr x \<Rightarrow> f x)"

definition getitem :: "(string \<rightharpoonup> real) \<Rightarrow> string \<Rightarrow> error + real" where
  "getitem d k = (case d k of None \<Rightarrow> Inl (KeyError_name k) | Some v \<Rightarrow> Inr v)"

text \<open>Statements in sequence: the first one that raises ends the method.\<close>

fun run_all :: "(circuit \<Rightarrow> unit outcome) list \<Rightarrow> circuit \<Rightarrow> unit outcome" where
  "run_all [] self = (Inr (), self)"
| "run_all (f # fs) self =
     (case f self of
        (Inl e, self') \<Rightarrow> (Inl e, self')
      | (Inr u, self') \<Rightarrow> run_all fs self')"

text \<open>Lines 173-181 of \<^verbatim>\<open>add_transistor\<close>: the nine parameters are read and scaled in
  this order, before any element is added; \<^verbatim>\<open>ro = 1 / (tran_info['gds'] * fg)\<close>.\<close>

definition scale_tran_info ::
  "(string \<rightharpoonup> real) \<Rightarrow> int \<Rightarrow> error + (real \<times> real \<times> real \<times> real list)" where
  "scale_tran_info tran_info fg =
     bindE (getitem tran_info ''gm'') (\<lambda>gm0.
     bindE (getitem tran_info ''gds'') (\<lambda>gds0.
     if gds0 * of_int fg = 0 then Inl ZeroDivisionError
     else
     bindE (getitem tran_info ''gb'') (\<lambda>gb0.
     bindE (getitem tran_info ''cgd'') (\<lambda>cgd0.
     bindE (getitem tran_info ''cgs'') (\<lambda>cgs0.
     bindE (getitem tran_info ''cgb'') (\<lambda>cgb0.
     bindE (getitem tran_info ''cds'') (\<lambda>cds0.
     bindE (getitem tran_info ''cdb'') (\<lambda>cdb0.
     bindE (getitem tran_info ''csb'') (\<lambda>csb0.
     Inr (gm0 * of_int fg, 1 / (gds0 * of_int fg), gb0 * of_int fg,
          [cgd0 * of_int fg, cgs0 * of_int fg, cgb0 * of_int fg,
           cds0 * of_int fg, cdb0 * of_int fg, csb0 * of_int fg]))))))))))"

definition add_transistor ::
  "(string \<rightharpoonup> real) \<Rightarrow> string \<Rightarrow> string \<Rightarrow> string \<Rightarrow> string \<Rightarrow> int \<Rightarrow> circuit
     \<Rightarrow> unit outcome" where
  "add_transistor tran_info d_name g_name s_name b_name fg self =
     (case scale_tran_info tran_info fg of
        Inl e \<Rightarrow> (Inl e, self)
      | Inr (gm, ro, gb, caps) \<Rightarrow>
          run_all
            ([add_gm gm d_name s_name g_name s_name,
              add_res ro d_name s_name,
              add_gm gb d_name s_name b_name s_name] @
             map (\<lambda>(cap, p_name, n_name). add_cap cap p_name n_name)
               (zip caps
                  [(g_name, d_name), (g_name, s_name), (g_name, b_name),
                   (d_name, s_name), (d_name, b_name), (s_name, b_name)]))
            self)"

subsection \<open>Build sequences\<close>

text \<open>
  A circuit is built by a sequence of calls on a fresh object. \<open>exec\<close> gives the state a
  call leaves behind, whether it returned or raised; \<open>build\<close> runs a sequence of calls
  from the constructor's state.
\<close>

datatype call =
    Resolve string
  | AddRes real string string
  | AddGm real string string string string
  | AddCap real string string
  | AddTransistor "string \<rightharpoonup> real" string string string string int

fun exec :: "call \<Rightarrow> circuit \<Rightarrow> circuit" where
  "exec (Resolve name) self = snd (get_node_id name self)"
| "exec (AddRes res p n) self = snd (add_res res p n self)"
| "exec (AddGm gm p n cp cn) self = snd (add_gm gm p n cp cn self)"
| "exec (AddCap cap p n) self = snd (add_cap cap p n self)"
| "exec (AddTransistor info d g s b fg) self = snd (add_transistor info d g s b fg self)"

definition build_from :: "circuit \<Rightarrow> call list \<Rightarrow> circuit" where
  "build_from self calls = fold exec calls self"

definition build :: "call list \<Rightarrow> circuit" where
  "build calls = build_from LTICircuit_init calls"

definition reserved :: "string set" where
  "reserved = {''gnd'', ''vss'', ''vdd''}"

text \<open>
  The indices a method's terminal names resolve to, in the order the method resolves
  them (each \<^verbatim>\<open>add_*\<close> method starts with one \<^verbatim>\<open>_get_node_id\<close> call per terminal).
\<close>

fun resolve_names :: "string list \<Rightarrow> circuit \<Rightarrow> int list \<times> circuit" where
  "resolve_names [] self = ([], self)"
| "resolve_names (name # names) self =
     (let (i, self1) = get_node_id name self;
          (js, self2) = resolve_names names self1
      in (i # js, self2))"

text \<open>
  The registry invariant: the reserved names are ground, every other registered name
  has an index in \<open>{0..<n}\<close>, no two of them share an index and every index below \<open>n\<close>
  is taken.
\<close>

definition registry_ok :: "circuit \<Rightarrow> bool" where
  "registry_ok self \<longleftrightarrow>
     0 \<le> self_n self \<and>
     (\<forall>name \<in> reserved. self_node_id self name = Some (-1)) \<and>
     (\<forall>name i. name \<notin> reserved \<longrightarrow> self_node_id self name = Some i \<longrightarrow>
        0 \<le> i \<and> i < self_n self) \<and>
     (\<forall>name name' i. name \<notin> reserved \<longrightarrow> name' \<notin> reserved \<longrightarrow>
        self_node_id self name = Some i \<longrightarrow> self_node_id self name' = Some i \<longrightarrow> name = name') \<and>
     (\<forall>i. 0 \<le> i \<longrightarrow> i < self_n self \<longrightarrow>
        (\<exists>name. name \<notin> reserved \<and> self_node_id self name = Some i))"

text \<open>Every key of an accumulator names two nodes of the circuit.\<close>

definition keys_in_range :: "circuit \<Rightarrow> bool" where
  "keys_in_range self \<longleftrightarrow>
     list_all (\<lambda>((row, col), data). 0 \<le> row \<and> row < self_n self \<and> 0 \<le> col \<and> col < self_n self)
       (self_gmat_data self @ self_cmat_data self)"

section \<open>Matrices\<close>

text \<open>
  A matrix value records what the program holds: whether it is a
  \<^verbatim>\<open>scipy.sparse.csc_matrix\<close> or a dense \<^verbatim>\<open>numpy.ndarray\<close>, its shape, and its rows.
  The kind matters: the library routines the queries call do not all take both.
\<close>

record matrix =
  is_sparse :: bool
  nrows :: nat
  ncols :: nat
  elems :: "real list list"

text \<open>
  \<^verbatim>\<open>scipy.sparse.csc_matrix((data, (row, col)), shape=shape)\<close>, modelled on the checks of
  the library's coordinate-format constructor: a negative dimension and an index outside
  the shape are rejected with a \<^verbatim>\<open>ValueError\<close> (rows are checked before columns, too
  large before negative); entries with the same \<^verbatim>\<open>(row, col)\<close> are summed and every
  other entry is zero.
\<close>

definition csc_matrix :: "(key \<times> real) list \<Rightarrow> int \<times> int \<Rightarrow> error + matrix" where
  "csc_matrix entries shape =
     (case shape of (M, N) \<Rightarrow>
        if M < 0 \<or> N < 0 then Inl (ValueError ''invalid shape'')
        else if list_ex (\<lambda>((row, col), data). row \<ge> M) entries
          then Inl (ValueError ''row index exceeds matrix dimensions'')
        else if list_ex (\<lambda>((row, col), data). col \<ge> N) entries
          then Inl (ValueError ''column index exceeds matrix dimensions'')
        else if list_ex (\<lambda>((row, col), data). row < 0) entries
          then Inl (ValueError ''negative row index found'')
        else if list_ex (\<lambda>((row, col), data). col < 0) entries
          then Inl (ValueError ''negative column index found'')
        else Inr \<lparr>is_sparse = True, nrows = nat M, ncols = nat N,
                  elems =
                    map (\<lambda>i. map (\<lambda>j. sum_list (map snd (filter (\<lambda>(k, data). k = (i, j)) entries)))
                               [0..N - 1])
                      [0..M - 1]\<rparr>)"

definition dict_to_csc_mat :: "table \<Rightarrow> int \<times> int \<Rightarrow> int \<Rightarrow> int \<Rightarrow> error + matrix" where
  "dict_to_csc_mat table shape ignore_row ignore_col =
     csc_matrix
       (filter (\<lambda>((row, col), data). row \<noteq> ignore_row \<and> col \<noteq> ignore_col) table)
       shape"

text \<open>Python's index and slice conventions: a negative index counts from the end; an
  index outside the sequence raises \<^verbatim>\<open>IndexError\<close>; a slice is clipped to the sequence.
  \<open>slice_bounds start stop len\<close> is the first position and the number of positions of the
  slice \<^verbatim>\<open>start:stop\<close> of a sequence of length \<open>len\<close>.\<close>

definition py_index :: "int \<Rightarrow> nat \<Rightarrow> error + nat" where
  "py_index i len =
     (let j = (if i < 0 then int len + i else i)
      in if 0 \<le> j \<and> j < int len then Inr (nat j) else Inl IndexError)"

definition slice_bounds :: "int \<Rightarrow> int \<Rightarrow> nat \<Rightarrow> nat \<times> nat" where
  "slice_bounds start stop len =
     (let clip = (\<lambda>i. if i < 0 then max (i + int len) 0 else min i (int len));
          a = clip start; b = clip stop
      in (nat a, nat (b - a)))"

text \<open>\<^verbatim>\<open>m[:, cols]\<close> for a list of column indices and \<^verbatim>\<open>m[:, start:stop]\<close>; both keep the
  kind of \<open>m\<close>. The only use of \<open>select_cols\<close> takes its indices from
  \<^verbatim>\<open>range(self._n)\<close> on a matrix with \<^verbatim>\<open>self._n\<close> columns, so every index is inside the
  row (\<open>select_cols_in_range\<close> below).\<close>

definition select_cols :: "matrix \<Rightarrow> int list \<Rightarrow> matrix" where
  "select_cols m cols =
     m\<lparr>ncols := length cols, elems := map (\<lambda>row. map (\<lambda>j. row ! nat j) cols) (elems m)\<rparr>"

definition slice_cols :: "matrix \<Rightarrow> int \<Rightarrow> int \<Rightarrow> matrix" where
  "slice_cols m start stop =
     (let (first, count) = slice_bounds start stop (ncols m)
      in m\<lparr>ncols := count, elems := map (\<lambda>row. take count (drop first row)) (elems m)\<rparr>)"

text \<open>Unary minus keeps the kind and the shape.\<close>

definition mneg :: "matrix \<Rightarrow> matrix" where
  "mneg m = m\<lparr>elems := map (map uminus) (elems m)\<rparr>"

text \<open>\<^verbatim>\<open>np.zeros((r, c))\<close>, and \<^verbatim>\<open>m[i, j]\<close> and \<^verbatim>\<open>m[i, j] = v\<close> on a dense array.\<close>

definition zeros :: "int \<Rightarrow> int \<Rightarrow> matrix" where
  "zeros r c =
     \<lparr>is_sparse = False, nrows = nat r, ncols = nat c,
      elems = replicate (nat r) (replicate (nat c) 0)\<rparr>"

definition getitem2 :: "matrix \<Rightarrow> int \<Rightarrow> int \<Rightarrow> error + real" where
  "getitem2 m i j =
     bindE (py_index i (nrows m)) (\<lambda>i'.
     bindE (py_index j (ncols m)) (\<lambda>j'.
     Inr (elems m ! i' ! j')))"

definition setitem2 :: "matrix \<Rightarrow> int \<Rightarrow> int \<Rightarrow> real \<Rightarrow> error + matrix" where
  "setitem2 m i j v =
     bindE (py_index i (nrows m)) (\<lambda>i'.
     bindE (py_index j (ncols m)) (\<lambda>j'.
     Inr (m\<lparr>elems := (elems m)[i' := (elems m ! i')[j' := v]]\<rparr>)))"

text \<open>
  \<^verbatim>\<open>np.dot(a, b)\<close> multiplies dense arrays; it does not multiply a scipy sparse matrix
  and raises \<^verbatim>\<open>NotImplementedError\<close> when an operand is one. \<open>msub a b\<close> is the dense
  result of \<^verbatim>\<open>a - b\<close> on two matrices of one shape. (In the queries both stand after a
  statement that always raises.)
\<close>

definition np_dot :: "matrix \<Rightarrow> matrix \<Rightarrow> error + matrix" where
  "np_dot a b =
     (if is_sparse a \<or> is_sparse b then Inl NotImplementedError
      else if ncols a \<noteq> nrows b then Inl (ValueError ''shapes not aligned'')
      else Inr \<lparr>is_sparse = False, nrows = nrows a, ncols = ncols b,
                elems =
                  map (\<lambda>row. map (\<lambda>j. sum_list (map2 (*) row (map (\<lambda>brow. brow ! j) (elems b))))
                                [0..<ncols b])
                    (elems a)\<rparr>)"

definition msub :: "matrix \<Rightarrow> matrix \<Rightarrow> matrix" where
  "msub a b = a\<lparr>is_sparse := False, elems := map2 (map2 (-)) (elems a) (elems b)\<rparr>"

section \<open>The numerical library\<close>

text \<open>
  The numerical work of \<^verbatim>\<open>scipy.sparse.linalg.factorized\<close> and \<^verbatim>\<open>scipy.signal.ss2tf\<close> is a
  parameter of the model. \<open>splu lib m\<close> is the LU factorization of a square matrix:
  \<open>None\<close> when the matrix is exactly singular, otherwise the solve function, from a dense
  right-hand side to the dense solution. \<open>ss2tf lib\<close> gives the numerator (one row per
  output) and the denominator, in descending powers of \<open>s\<close>.
\<close>

record linalg =
  splu :: "matrix \<Rightarrow> (matrix \<Rightarrow> matrix) option"
  ss2tf :: "matrix \<Rightarrow> matrix \<Rightarrow> matrix \<Rightarrow> matrix \<Rightarrow> real list list \<times> real list"

text \<open>
  \<^verbatim>\<open>scipy.sparse.linalg.factorized(m)\<close>: a matrix that is not square is refused with a
  \<^verbatim>\<open>ValueError\<close>, an exactly singular one with a \<^verbatim>\<open>RuntimeError\<close>; otherwise the solve
  function is returned.
\<close>

definition factorized :: "linalg \<Rightarrow> matrix \<Rightarrow> error + (matrix \<Rightarrow> matrix)" where
  "factorized lib m =
     (if nrows m \<noteq> ncols m then Inl (ValueError ''can only factor square matrices'')
      else case splu lib m of
             None \<Rightarrow> Inl (RuntimeError ''Factor is exactly singular'')
           | Some solve_fun \<Rightarrow> Inr solve_fun)"

text \<open>
  A call \<^verbatim>\<open>solve_fun(b)\<close> of the function \<^verbatim>\<open>factorized\<close> returned: it takes a dense array
  and raises \<^verbatim>\<open>TypeError\<close> when it is handed a sparse matrix. (The library also refuses a
  dense array whose number of rows is not that of the factorized matrix; in both queries
  the first argument the function is called with is a sparse matrix, so no call with a
  dense array is ever made.)
\<close>

definition call_solve :: "(matrix \<Rightarrow> matrix) \<Rightarrow> matrix \<Rightarrow> error + matrix" where
  "call_solve solve_fun b = (if is_sparse b then Inl TypeError else Inr (solve_fun b))"

text \<open>The state-space model \<open>(A, B, C_out, D)\<close> a query passes to \<^verbatim>\<open>ss2tf\<close> (its local
  variables \<^verbatim>\<open>amat\<close>, \<^verbatim>\<open>bmat\<close>, \<^verbatim>\<open>cmat\<close>, \<^verbatim>\<open>dmat\<close> at that point).\<close>

record state_space =
  ss_amat :: matrix
  ss_bmat :: matrix
  ss_cmat :: matrix
  ss_dmat :: matrix

section \<open>Transfer-function queries\<close>

text \<open>
  The loop \<^verbatim>\<open>while abs(num[0]) <= atol: num = num[1:]\<close> of both queries. \<^verbatim>\<open>num[0]\<close> on
  an array with no element raises \<^verbatim>\<open>IndexError\<close>.
\<close>

fun strip_leading :: "real \<Rightarrow> real list \<Rightarrow> error + real list" where
  "strip_leading atol [] = Inl IndexError"
| "strip_leading atol (x # xs) =
     (if \<bar>x\<bar> \<le> atol then strip_leading atol xs else Inr (x # xs))"

text \<open>
  The tail of both queries: \<^verbatim>\<open>ss2tf\<close>, \<^verbatim>\<open>num = num[0, :]\<close> and the loop. The result is the
  pair of arguments \<^verbatim>\<open>(num, den)\<close> with which \<^verbatim>\<open>TransferFunctionContinuous\<close> is called; the
  constructor, which normalizes its arguments once more, is not modelled.
\<close>

definition transfer_function ::
  "linalg \<Rightarrow> state_space \<Rightarrow> real \<Rightarrow> error + (real list \<times> real list)" where
  "transfer_function lib sys atol =
     (let (num, den) = ss2tf lib (ss_amat sys) (ss_bmat sys) (ss_cmat sys) (ss_dmat sys)
      in bindE (case num of [] \<Rightarrow> Inl IndexError | row # _ \<Rightarrow> Inr row) (\<lambda>num.
         bindE (strip_leading atol num) (\<lambda>num.
         Inr (num, den))))"

definition lookup_node :: "circuit \<Rightarrow> string \<Rightarrow> error + int" where
  "lookup_node self name =
     (case self_node_id self name of None \<Rightarrow> Inl (KeyError_name name) | Some i \<Rightarrow> Inr i)"

text \<open>
  \<^verbatim>\<open>get_voltage_gain_system\<close>, lines 225-237: the node lookups, the same-node check, the
  two materialized matrices without the input row, and their core columns. The result
  is \<open>(node_in, node_out, gmat, cmat, gmat_core, cmat_core)\<close>.
\<close>

definition voltage_gain_matrices ::
  "circuit \<Rightarrow> string \<Rightarrow> string
     \<Rightarrow> error + (int \<times> int \<times> matrix \<times> matrix \<times> matrix \<times> matrix)" where
  "voltage_gain_matrices self in_name out_name =
     bindE (lookup_node self in_name) (\<lambda>node_in.
     bindE (lookup_node self out_name) (\<lambda>node_out.
     if node_in = node_out then Inl (ValueError ''Input and output nodes are the same.'')
     else
       let mat_shape = (self_n self - 1, self_n self)
       in bindE (dict_to_csc_mat (self_gmat_data self) mat_shape node_in (-1)) (\<lambda>gmat.
          bindE (dict_to_csc_mat (self_cmat_data self) mat_shape node_in (-1)) (\<lambda>cmat.
          let col_core = filter (\<lambda>idx. idx \<noteq> node_in) [0..self_n self - 1];
              cmat_core = select_cols cmat col_core;
              gmat_core = select_cols gmat col_core
          in Inr (node_in, node_out, gmat, cmat, gmat_core, cmat_core)))))"

text \<open>
  Lines 239-259: the factorization inside \<^verbatim>\<open>try\<close> / \<^verbatim>\<open>except RuntimeError\<close> (any other
  exception of \<^verbatim>\<open>factorized\<close> passes through) and the statements that build the
  state-space model, in the order of the source. \<^verbatim>\<open>cvec_in\<close>, \<^verbatim>\<open>gvec_in\<close> and
  \<^verbatim>\<open>gmat_core\<close> are slices of sparse matrices and sparse themselves.
\<close>

definition voltage_gain_state_space ::
  "linalg \<Rightarrow> circuit \<Rightarrow> string \<Rightarrow> string \<Rightarrow> error + state_space" where
  "voltage_gain_state_space lib self in_name out_name =
     bindE (voltage_gain_matrices self in_name out_name)
       (\<lambda>(node_in, node_out0, gmat, cmat, gmat_core, cmat_core).
     case factorized lib cmat_core of
       Inl (RuntimeError msg) \<Rightarrow> Inl (ValueError ''cap matrix is singular.'')
     | Inl e \<Rightarrow> Inl e
     | Inr solve_fun \<Rightarrow>
         let cvec_in = slice_cols cmat node_in (node_in + 1);
             gvec_in0 = slice_cols gmat node_in (node_in + 1);
             node_out = (if node_out0 > node_in then node_out0 - 1 else node_out0)
         in bindE (call_solve solve_fun cvec_in) (\<lambda>weight_vec.
            bindE (np_dot gmat_core weight_vec) (\<lambda>prod.
            let gvec_in = msub gvec_in0 prod
            in bindE (getitem2 weight_vec node_out 0) (\<lambda>w.
               let dmat = (zeros 1 1)\<lparr>elems := [[1 * - w]]\<rparr>
               in bindE (call_solve solve_fun (mneg gmat_core)) (\<lambda>amat.
                  bindE (call_solve solve_fun (mneg gvec_in)) (\<lambda>bmat.
                  bindE (setitem2 (zeros 1 (self_n self - 1)) 0 node_out 1) (\<lambda>cmat.
                  Inr \<lparr>ss_amat = amat, ss_bmat = bmat, ss_cmat = cmat,
                       ss_dmat = dmat\<rparr>)))))))"

text \<open>\<^verbatim>\<open>get_voltage_gain_system\<close>: the state-space model, then the tail shared with the
  impedance-gain query.\<close>

definition get_voltage_gain_system ::
  "linalg \<Rightarrow> circuit \<Rightarrow> string \<Rightarrow> string \<Rightarrow> real \<Rightarrow> error + (real list \<times> real list)" where
  "get_voltage_gain_system lib self in_name out_name atol =
     bindE (voltage_gain_state_space lib self in_name out_name) (\<lambda>sys.
     transfer_function lib sys atol)"

text \<open>
  \<^verbatim>\<open>get_impedance_gain_system\<close>, lines 291-310: the node lookups, the shorted-port
  check and the materialized matrices. The result is
  \<open>(node_in, node_out, mat_shape, gmat, cmat)\<close>, the indices already remapped.
\<close>

definition impedance_gain_matrices ::
  "circuit \<Rightarrow> string \<Rightarrow> string \<Rightarrow> string
     \<Rightarrow> error + (int \<times> int \<times> (int \<times> int) \<times> matrix \<times> matrix)" where
  "impedance_gain_matrices self in_name out_name short_name =
     bindE (lookup_node self in_name) (\<lambda>node_in.
     bindE (lookup_node self out_name) (\<lambda>node_out.
     if short_name \<noteq> [] then
       bindE (lookup_node self short_name) (\<lambda>node_short.
       if node_in = node_short \<or> node_out = node_short
       then Inl (ValueError ''Shorting input/output.'')
       else
         let mat_shape = (self_n self - 1, self_n self - 1)
         in bindE (dict_to_csc_mat (self_gmat_data self) mat_shape node_short node_short) (\<lambda>gmat.
            bindE (dict_to_csc_mat (self_cmat_data self) mat_shape node_short node_short) (\<lambda>cmat.
            Inr (if node_in > node_short then node_in - 1 else node_in,
                 if node_out > node_short then node_out - 1 else node_out,
                 mat_shape, gmat, cmat))))
     else
       let mat_shape = (self_n self, self_n self)
       in bindE (dict_to_csc_mat (self_gmat_data self) mat_shape (-1) (-1)) (\<lambda>gmat.
          bindE (dict_to_csc_mat (self_cmat_data self) mat_shape (-1) (-1)) (\<lambda>cmat.
          Inr (node_in, node_out, mat_shape, gmat, cmat)))))"

text \<open>
  Lines 312-325: the factorization inside \<^verbatim>\<open>try\<close> / \<^verbatim>\<open>except RuntimeError\<close> and the
  statements that build the state-space model, in the order of the source. \<^verbatim>\<open>gmat\<close> is
  a sparse matrix; the column \<^verbatim>\<open>bmat\<close> comes from \<^verbatim>\<open>np.zeros\<close> and is dense.
\<close>

definition impedance_gain_state_space ::
  "linalg \<Rightarrow> circuit \<Rightarrow> string \<Rightarrow> string \<Rightarrow> string \<Rightarrow> error + state_space" where
  "impedance_gain_state_space lib self in_name out_name short_name =
     bindE (impedance_gain_matrices self in_name out_name short_name)
       (\<lambda>(node_in, node_out, mat_shape, gmat, cmat).
     case factorized lib cmat of
       Inl (RuntimeError msg) \<Rightarrow> Inl (ValueError ''cap matrix is singular.'')
     | Inl e \<Rightarrow> Inl e
     | Inr solve_fun \<Rightarrow>
         bindE (setitem2 (zeros (fst mat_shape) 1) node_in 0 (- 1)) (\<lambda>bmat0.
         bindE (call_solve solve_fun (mneg gmat)) (\<lambda>amat.
         bindE (call_solve solve_fun (mneg bmat0)) (\<lambda>bmat.
         bindE (setitem2 (zeros 1 (fst mat_shape)) 0 node_out 1) (\<lambda>cmat.
         let dmat = zeros 1 1
         in Inr \<lparr>ss_amat = amat, ss_bmat = bmat, ss_cmat = cmat, ss_dmat = dmat\<rparr>)))))"

text \<open>\<^verbatim>\<open>get_impedance_gain_system\<close>: the state-space model, then the same tail.\<close>

definition get_impedance_gain_system ::
  "linalg \<Rightarrow> circuit \<Rightarrow> string \<Rightarrow> string \<Rightarrow> string \<Rightarrow> real
     \<Rightarrow> error + (real list \<times> real list)" where
  "get_impedance_gain_system lib self in_name out_name short_name atol =
     bindE (impedance_gain_state_space lib self in_name out_name short_name) (\<lambda>sys.
     transfer_function lib sys atol)"

section \<open>Concrete instances\<close>

text \<open>
  An instance of the library parameter for one-state systems, exact on them and left
  unspecified elsewhere: a \<open>1 \<times> 1\<close> matrix \<open>[[a]]\<close> is exactly singular when \<open>a = 0\<close> and
  is otherwise solved by division; the transfer function of the one-state system
  \<open>(a, b, c, d)\<close> is \<open>(d s + (c b - d a)) / (s - a)\<close>.
\<close>

definition scalar_solve :: "real \<Rightarrow> matrix \<Rightarrow> matrix" where
  "scalar_solve a rhs = rhs\<lparr>elems := map (map (\<lambda>x. x / a)) (elems rhs)\<rparr>"

definition scalar_splu :: "matrix \<Rightarrow> (matrix \<Rightarrow> matrix) option" where
  "scalar_splu m =
     (case elems m of
        [[a]] \<Rightarrow> if a = 0 then None else Some (scalar_solve a)
      | _ \<Rightarrow> undefined)"

definition scalar_ss2tf ::
  "matrix \<Rightarrow> matrix \<Rightarrow> matrix \<Rightarrow> matrix \<Rightarrow> real list list \<times> real list" where
  "scalar_ss2tf a b c d =
     (case (elems a, elems b, elems c, elems d) of
        ([[a']], [[b']], [[c']], [[d']]) \<Rightarrow> ([[d', c' * b' - d' * a']], [1, - a'])
      | _ \<Rightarrow> undefined)"

definition scalar_linalg :: linalg where
  "scalar_linalg = \<lparr>splu = scalar_splu, ss2tf = scalar_ss2tf\<rparr>"

text \<open>
  Two circuit states with entries in their accumulators. No sequence of \<^verbatim>\<open>add_*\<close> calls
  produces them (see \<open>stamp\<close>); they are the states the calls named below would leave if
  the entries they write existed with value zero beforehand.

  \<open>rc_parallel\<close>: \<^verbatim>\<open>add_res(1, 'out', 'gnd')\<close>, \<^verbatim>\<open>add_cap(2, 'out', 'gnd')\<close>.

  \<open>rc_divider\<close>: \<^verbatim>\<open>add_res(1, 'out', 'in')\<close>, \<^verbatim>\<open>add_cap(2, 'out', 'gnd')\<close>,
  \<^verbatim>\<open>add_cap(3, 'out', 'in')\<close>.
\<close>

definition rc_parallel :: circuit where
  "rc_parallel =
     (build [Resolve ''out''])
       \<lparr>self_gmat_data := [((0, 0), 1)], self_cmat_data := [((0, 0), 2)]\<rparr>"

definition rc_divider :: circuit where
  "rc_divider =
     (build [Resolve ''out'', Resolve ''in''])
       \<lparr>self_gmat_data := [((1, 1), 1), ((1, 0), - 1), ((0, 0), 1), ((0, 1), - 1)],
        self_cmat_data := [((0, 0), 5), ((1, 1), 3), ((1, 0), - 3), ((0, 1), - 3)]\<rparr>"

section \<open>The node registry\<close>

lemma registry_okD:
  assumes "registry_ok self"
  shows "0 \<le> self_n self"
    and "name \<in> reserved \<Longrightarrow> self_node_id self name = Some (-1)"
    and "name \<notin> reserved \<Longrightarrow> self_node_id self name = Some i \<Longrightarrow> 0 \<le> i \<and> i < self_n self"
    and "name \<notin> reserved \<Longrightarrow> name' \<notin> reserved \<Longrightarrow> self_node_id self name = Some i \<Longrightarrow>
           self_node_id self name' = Some i \<Longrightarrow> name = name'"
    and "0 \<le> i \<Longrightarrow> i < self_n self \<Longrightarrow> \<exists>name. name \<notin> reserved \<and> self_node_id self name = Some i"
  using assms unfolding registry_ok_def by blast+

lemma get_node_id_None:
  "self_node_id self name = None \<Longrightarrow>
     get_node_id name self =
       (self_n self, self\<lparr>self_node_id := (self_node_id self)(name \<mapsto> self_n self),
                          self_n := self_n self + 1\<rparr>)"
  by (simp add: get_node_id_def Let_def)

lemma get_node_id_Some:
  "self_node_id self name = Some i \<Longrightarrow> get_node_id name self = (i, self)"
  by (simp add: get_node_id_def)

lemma get_node_id_tables [simp]:
  "self_gmat_data (snd (get_node_id name self)) = self_gmat_data self"
  "self_cmat_data (snd (get_node_id name self)) = self_cmat_data self"
  by (simp_all add: get_node_id_def Let_def split: option.splits)

lemma resolve_names_tables [simp]:
  "self_gmat_data (snd (resolve_names names self)) = self_gmat_data self"
  "self_cmat_data (snd (resolve_names names self)) = self_cmat_data self"
  by (induction names arbitrary: self; simp add: case_prod_beta)+

lemma registry_ok_init: "registry_ok LTICircuit_init"
  by (auto simp: registry_ok_def LTICircuit_init_def reserved_def)

lemma registry_ok_get_node_id:
  assumes "registry_ok self"
  shows "registry_ok (snd (get_node_id name self))"
proof (cases "self_node_id self name")
  case (Some i)
  then show ?thesis using assms by (simp add: get_node_id_Some)
next
  case None
  note D = registry_okD[OF assms]
  have nr: "name \<notin> reserved" using None D(2)[of name] by auto
  let ?s = "snd (get_node_id name self)"
  have n': "self_n ?s = self_n self + 1"
    and id': "self_node_id ?s = (self_node_id self)(name \<mapsto> self_n self)"
    using None by (simp_all add: get_node_id_None)
  have 1: "0 \<le> self_n ?s" using D(1) n' by simp
  have 2: "\<forall>nm \<in> reserved. self_node_id ?s nm = Some (-1)"
    using D(2) nr by (auto simp: id')
  have 3: "\<forall>nm i. nm \<notin> reserved \<longrightarrow> self_node_id ?s nm = Some i \<longrightarrow> 0 \<le> i \<and> i < self_n ?s"
  proof (intro allI impI)
    fix nm i assume a: "nm \<notin> reserved" "self_node_id ?s nm = Some i"
    show "0 \<le> i \<and> i < self_n ?s"
    proof (cases "nm = name")
      case True then show ?thesis using a D(1) by (simp add: id' n')
    next
      case False then show ?thesis using a D(3)[of nm i] by (simp add: id' n')
    qed
  qed
  have 4: "\<forall>nm nm' i. nm \<notin> reserved \<longrightarrow> nm' \<notin> reserved \<longrightarrow>
        self_node_id ?s nm = Some i \<longrightarrow> self_node_id ?s nm' = Some i \<longrightarrow> nm = nm'"
  proof (intro allI impI)
    fix nm nm' i
    assume a: "nm \<notin> reserved" "nm' \<notin> reserved"
      "self_node_id ?s nm = Some i" "self_node_id ?s nm' = Some i"
    show "nm = nm'"
    proof (cases "nm = name"; cases "nm' = name")
      assume "nm = name" "nm' \<noteq> name"
      then show ?thesis using a D(3)[of nm' i] by (simp add: id')
    next
      assume "nm \<noteq> name" "nm' = name"
      then show ?thesis using a D(3)[of nm i] by (simp add: id')
    next
      assume "nm \<noteq> name" "nm' \<noteq> name"
      then show ?thesis using a D(4)[of nm nm' i] by (simp add: id')
    qed simp
  qed
  have 5: "\<forall>i. 0 \<le> i \<longrightarrow> i < self_n ?s \<longrightarrow> (\<exists>nm. nm \<notin> reserved \<and> self_node_id ?s nm = Some i)"
  proof (intro allI impI)
    fix i assume a: "0 \<le> i" "i < self_n ?s"
    show "\<exists>nm. nm \<notin> reserved \<and> self_node_id ?s nm = Some i"
    proof (cases "i = self_n self")
      case True
      then show ?thesis using nr by (intro exI[of _ name]) (simp add: id')
    next
      case False
      then have "i < self_n self" using a n' by simp
      then obtain nm where nm: "nm \<notin> reserved" "self_node_id self nm = Some i"
        using D(5)[of i] a by blast
      then have "nm \<noteq> name" using None by auto
      then show ?thesis using nm by (intro exI[of _ nm]) (simp add: id')
    qed
  qed
  show ?thesis unfolding registry_ok_def using 1 2 3 4 5 by blast
qed

lemma add_res_registry:
  "self_node_id (snd (add_res res p n self)) = self_node_id (snd (resolve_names [p, n] self))"
  "self_n (snd (add_res res p n self)) = self_n (snd (resolve_names [p, n] self))"
  "self_cmat_data (snd (add_res res p n self)) = self_cmat_data self"
  by (simp_all add: add_res_def case_prod_beta Let_def)

lemma add_cap_registry:
  "self_node_id (snd (add_cap res p n self)) = self_node_id (snd (resolve_names [p, n] self))"
  "self_n (snd (add_cap res p n self)) = self_n (snd (resolve_names [p, n] self))"
  "self_gmat_data (snd (add_cap res p n self)) = self_gmat_data self"
  by (simp_all add: add_cap_def case_prod_beta Let_def)

lemma add_gm_registry:
  "self_node_id (snd (add_gm gm p n cp cn self)) = self_node_id (snd (resolve_names [p, n, cp, cn] self))"
  "self_n (snd (add_gm gm p n cp cn self)) = self_n (snd (resolve_names [p, n, cp, cn] self))"
  "self_cmat_data (snd (add_gm gm p n cp cn self)) = self_cmat_data self"
  by (simp_all add: add_gm_def case_prod_beta Let_def)

lemma registry_ok_resolve_names:
  "registry_ok self \<Longrightarrow> registry_ok (snd (resolve_names names self))"
  by (induction names arbitrary: self) (simp_all add: case_prod_beta registry_ok_get_node_id)

lemma registry_ok_cong:
  "self_node_id s' = self_node_id s \<Longrightarrow> self_n s' = self_n s \<Longrightarrow> registry_ok s \<Longrightarrow> registry_ok s'"
  by (simp add: registry_ok_def)

lemma registry_ok_add_res: "registry_ok self \<Longrightarrow> registry_ok (snd (add_res res p n self))"
  by (rule registry_ok_cong[OF add_res_registry(1,2)]) (rule registry_ok_resolve_names)

lemma registry_ok_add_cap: "registry_ok self \<Longrightarrow> registry_ok (snd (add_cap res p n self))"
  by (rule registry_ok_cong[OF add_cap_registry(1,2)]) (rule registry_ok_resolve_names)

lemma registry_ok_add_gm: "registry_ok self \<Longrightarrow> registry_ok (snd (add_gm gm p n cp cn self))"
  by (rule registry_ok_cong[OF add_gm_registry(1,2)]) (rule registry_ok_resolve_names)

lemma run_all_preserves:
  assumes "\<And>f s. f \<in> set fs \<Longrightarrow> P s \<Longrightarrow> P (snd (f s))" and "P self"
  shows "P (snd (run_all fs self))"
  using assms
proof (induction fs arbitrary: self)
  case Nil
  then show ?case by simp
next
  case (Cons f fs)
  have "P (snd (f self))" using Cons.prems by simp
  then show ?case using Cons
    by (cases "f self") (auto split: sum.splits)
qed

lemma add_transistor_preserves:
  assumes res: "\<And>r p n s. P s \<Longrightarrow> P (snd (add_res r p n s))"
      and cap: "\<And>r p n s. P s \<Longrightarrow> P (snd (add_cap r p n s))"
      and gm: "\<And>g p n cp cn s. P s \<Longrightarrow> P (snd (add_gm g p n cp cn s))"
      and "P self"
  shows "P (snd (add_transistor info d g s b fg self))"
proof (cases "scale_tran_info info fg")
  case (Inl e)
  then show ?thesis using assms(4) by (simp add: add_transistor_def)
next
  case (Inr t)
  obtain gm ro gb caps where t: "t = (gm, ro, gb, caps)" by (cases t) auto
  show ?thesis
    unfolding add_transistor_def Inr t sum.case prod.case
    by (rule run_all_preserves) (use assms in \<open>auto simp: in_set_zip\<close>)
qed

lemma exec_preserves:
  assumes "\<And>name s. P s \<Longrightarrow> P (snd (get_node_id name s))"
      and res: "\<And>r p n s. P s \<Longrightarrow> P (snd (add_res r p n s))"
      and cap: "\<And>r p n s. P s \<Longrightarrow> P (snd (add_cap r p n s))"
      and gm: "\<And>g p n cp cn s. P s \<Longrightarrow> P (snd (add_gm g p n cp cn s))"
      and "P self"
  shows "P (exec c self)"
  using assms by (cases c) (simp_all add: add_transistor_preserves[where P = P])

lemma build_from_preserves:
  assumes "\<And>name s. P s \<Longrightarrow> P (snd (get_node_id name s))"
      and res: "\<And>r p n s. P s \<Longrightarrow> P (snd (add_res r p n s))"
      and cap: "\<And>r p n s. P s \<Longrightarrow> P (snd (add_cap r p n s))"
      and gm: "\<And>g p n cp cn s. P s \<Longrightarrow> P (snd (add_gm g p n cp cn s))"
      and "P self"
  shows "P (build_from self calls)"
  unfolding build_from_def using assms(5)
proof (induction calls arbitrary: self)
  case Nil then show ?case by simp
next
  case (Cons c calls)
  have "P (exec c self)" by (rule exec_preserves[where P = P]) (use assms Cons.prems in auto)
  then show ?case using Cons.IH by simp
qed

lemma registry_ok_build_from: "registry_ok self \<Longrightarrow> registry_ok (build_from self calls)"
  by (rule build_from_preserves[where P = registry_ok])
     (simp_all add: registry_ok_get_node_id registry_ok_add_res registry_ok_add_cap registry_ok_add_gm)

lemma registry_ok_build: "registry_ok (build calls)"
  unfolding build_def by (rule registry_ok_build_from[OF registry_ok_init])

lemma resolve_names_2:
  "resolve_names [p, n] self =
     ([fst (get_node_id p self), fst (get_node_id n (snd (get_node_id p self)))],
      snd (get_node_id n (snd (get_node_id p self))))"
  by (simp add: case_prod_beta)

lemma resolve_names_4:
  "resolve_names [p, n, cp, cn] self =
     (let s1 = snd (get_node_id p self); s2 = snd (get_node_id n s1);
          s3 = snd (get_node_id cp s2)
      in ([fst (get_node_id p self), fst (get_node_id n s1), fst (get_node_id cp s2),
           fst (get_node_id cn s3)], snd (get_node_id cn s3)))"
  by (simp add: case_prod_beta Let_def)

lemma get_node_id_keeps:
  "self_node_id self name = Some i \<Longrightarrow> self_node_id (snd (get_node_id name' self)) name = Some i"
  by (cases "self_node_id self name'") (auto simp: get_node_id_None get_node_id_Some)

lemma resolve_names_keeps:
  "self_node_id self name = Some i \<Longrightarrow> self_node_id (snd (resolve_names names self)) name = Some i"
  by (induction names arbitrary: self) (simp_all add: case_prod_beta get_node_id_keeps)

lemma build_from_keeps:
  assumes "self_node_id self name = Some i"
  shows "self_node_id (build_from self calls) name = Some i"
  by (rule build_from_preserves[where P = "\<lambda>s. self_node_id s name = Some i"])
     (simp_all add: get_node_id_keeps add_res_registry add_cap_registry add_gm_registry
        resolve_names_keeps assms del: resolve_names.simps)

lemma get_node_id_registers:
  "self_node_id (snd (get_node_id name self)) name = Some (fst (get_node_id name self))"
  by (cases "self_node_id self name") (auto simp: get_node_id_None get_node_id_Some)

lemma get_node_id_again:
  "fst (get_node_id name (build_from (snd (get_node_id name self)) calls)) = fst (get_node_id name self)"
  using build_from_keeps[OF get_node_id_registers, of name self calls]
  by (simp add: get_node_id_Some)

lemma resolve_fresh:
  "distinct names \<Longrightarrow> set names \<inter> dom (self_node_id self) = {} \<Longrightarrow>
     fst (resolve_names names self) = map (\<lambda>k. self_n self + int k) [0..<length names]"
proof (induction names arbitrary: self)
  case Nil
  then show ?case by simp
next
  case (Cons name names)
  have none: "self_node_id self name = None" using Cons.prems(2) by auto
  let ?s = "snd (get_node_id name self)"
  have s: "fst (get_node_id name self) = self_n self"
    "self_n ?s = self_n self + 1"
    "dom (self_node_id ?s) = insert name (dom (self_node_id self))"
    using none by (simp_all add: get_node_id_None)
  have "fst (resolve_names names ?s) = map (\<lambda>k. self_n ?s + int k) [0..<length names]"
    using Cons.prems by (intro Cons.IH) (auto simp: s(3))
  then have "fst (resolve_names (name # names) self) =
      self_n self # map (\<lambda>k. self_n self + 1 + int k) [0..<length names]"
    by (simp add: s case_prod_beta)
  also have "\<dots> = map (\<lambda>k. self_n self + int k) [0..<length (name # names)]"
    by (simp add: upt_conv_Cons map_Suc_upt[symmetric] del: upt_Suc)
  finally show ?case .
qed

text \<open>
  Claim C8. In every state a sequence of calls can reach from the constructor, the three
  reserved names \<^verbatim>\<open>gnd\<close>, \<^verbatim>\<open>vss\<close>, \<^verbatim>\<open>vdd\<close> map to \<open>-1\<close>; every other registered name
  holds an index in \<open>{0..<n}\<close>, no two of them the same, and the indices in use are
  exactly \<open>0, \<dots>, n - 1\<close>; a name not yet registered receives the index \<open>n\<close> and \<open>n\<close>
  grows by one; resolving a name again, after any further calls, returns the index it
  received first; and resolving distinct fresh names on a new circuit numbers them
  \<open>0, 1, 2, \<dots>\<close> in order. \<^verbatim>\<open>_get_node_id\<close> has no error path: it is a total function
  of the name.
\<close>

theorem registry_invariant:
  "self_node_id (build calls) ''gnd'' = Some (-1) \<and>
   self_node_id (build calls) ''vss'' = Some (-1) \<and>
   self_node_id (build calls) ''vdd'' = Some (-1) \<and>
   (\<forall>name i. name \<notin> reserved \<longrightarrow> self_node_id (build calls) name = Some i \<longrightarrow>
      0 \<le> i \<and> i < self_n (build calls)) \<and>
   (\<forall>name name' i. name \<notin> reserved \<longrightarrow> name' \<notin> reserved \<longrightarrow>
      self_node_id (build calls) name = Some i \<longrightarrow>
      self_node_id (build calls) name' = Some i \<longrightarrow> name = name') \<and>
   {i. \<exists>name. name \<notin> reserved \<and> self_node_id (build calls) name = Some i} =
     {0..<self_n (build calls)} \<and>
   (\<forall>name. self_node_id (build calls) name = None \<longrightarrow>
      fst (get_node_id name (build calls)) = self_n (build calls) \<and>
      self_n (snd (get_node_id name (build calls))) = self_n (build calls) + 1) \<and>
   (\<forall>name more.
      fst (get_node_id name (build_from (snd (get_node_id name (build calls))) more)) =
      fst (get_node_id name (build calls))) \<and>
   (\<forall>names. distinct names \<longrightarrow> set names \<inter> reserved = {} \<longrightarrow>
      fst (resolve_names names LTICircuit_init) = map int [0..<length names])"
proof -
  note D = registry_okD[OF registry_ok_build[of calls]]
  have r: "''gnd'' \<in> reserved" "''vss'' \<in> reserved" "''vdd'' \<in> reserved"
    by (simp_all add: reserved_def)
  have 1: "self_node_id (build calls) ''gnd'' = Some (-1)"
    "self_node_id (build calls) ''vss'' = Some (-1)"
    "self_node_id (build calls) ''vdd'' = Some (-1)"
    using D(2) r by blast+
  have 2: "\<forall>name i. name \<notin> reserved \<longrightarrow> self_node_id (build calls) name = Some i \<longrightarrow>
      0 \<le> i \<and> i < self_n (build calls)"
    using D(3) by blast
  have 3: "\<forall>name name' i. name \<notin> reserved \<longrightarrow> name' \<notin> reserved \<longrightarrow>
      self_node_id (build calls) name = Some i \<longrightarrow>
      self_node_id (build calls) name' = Some i \<longrightarrow> name = name'"
    using D(4) by blast
  have 4: "{i. \<exists>name. name \<notin> reserved \<and> self_node_id (build calls) name = Some i} =
     {0..<self_n (build calls)}"
  proof (intro set_eqI iffI)
    fix i assume "i \<in> {i. \<exists>name. name \<notin> reserved \<and> self_node_id (build calls) name = Some i}"
    then show "i \<in> {0..<self_n (build calls)}" using D(3) by auto
  next
    fix i assume "i \<in> {0..<self_n (build calls)}"
    then show "i \<in> {i. \<exists>name. name \<notin> reserved \<and> self_node_id (build calls) name = Some i}"
      using D(5)[of i] by auto
  qed
  have 5: "\<forall>name. self_node_id (build calls) name = None \<longrightarrow>
      fst (get_node_id name (build calls)) = self_n (build calls) \<and>
      self_n (snd (get_node_id name (build calls))) = self_n (build calls) + 1"
    by (simp add: get_node_id_None)
  have 6: "\<forall>name more.
      fst (get_node_id name (build_from (snd (get_node_id name (build calls))) more)) =
      fst (get_node_id name (build calls))"
    by (simp add: get_node_id_again)
  have 7: "\<forall>names. distinct names \<longrightarrow> set names \<inter> reserved = {} \<longrightarrow>
      fst (resolve_names names LTICircuit_init) = map int [0..<length names]"
  proof (intro allI impI)
    fix names :: "string list"
    assume a: "distinct names" "set names \<inter> reserved = {}"
    have "dom (self_node_id LTICircuit_init) = reserved"
      by (auto simp: LTICircuit_init_def reserved_def split: if_splits)
    then have "fst (resolve_names names LTICircuit_init) =
        map (\<lambda>k. self_n LTICircuit_init + int k) [0..<length names]"
      using a by (intro resolve_fresh) auto
    then show "fst (resolve_names names LTICircuit_init) = map int [0..<length names]"
      by (simp add: LTICircuit_init_def)
  qed
  show ?thesis using 1 2 3 4 5 6 7 by blast
qed

theorem registry_invariant_witness:
  "''out'' \<notin> reserved \<and>
   self_node_id (build [AddRes 1 ''in'' ''out'', AddCap 1 ''out'' ''gnd'']) ''out'' = Some 1 \<and>
   (1::int) < self_n (build [AddRes 1 ''in'' ''out'', AddCap 1 ''out'' ''gnd'']) \<and>
   self_node_id (build [AddRes 1 ''in'' ''out'', AddCap 1 ''out'' ''gnd'']) ''vss'' = Some (-1) \<and>
   self_node_id (build [AddRes 1 ''in'' ''out'', AddCap 1 ''out'' ''gnd'']) ''x'' = None \<and>
   fst (get_node_id ''x'' (build [AddRes 1 ''in'' ''out'', AddCap 1 ''out'' ''gnd''])) = 2 \<and>
   fst (get_node_id ''x''
     (build_from (snd (get_node_id ''x'' (build [AddRes 1 ''in'' ''out'', AddCap 1 ''out'' ''gnd''])))
        [AddCap 1 ''y'' ''x''])) = 2 \<and>
   distinct [''a'', ''b'', ''c''] \<and> set [''a'', ''b'', ''c''] \<inter> reserved = {} \<and>
   fst (resolve_names [''a'', ''b'', ''c''] LTICircuit_init) = [0, 1, 2]"
proof -
  let ?c = "build [AddRes 1 ''in'' ''out'', AddCap 1 ''out'' ''gnd'']"
  have c: "self_node_id ?c ''out'' = Some 1" "self_node_id ?c ''x'' = None" "self_n ?c = 2"
    by (simp_all add: build_def build_from_def add_res_def add_cap_def get_node_id_def
        LTICircuit_init_def Let_def)
  have r: "''out'' \<notin> reserved" "set [''a'', ''b'', ''c''] \<inter> reserved = {}"
    by (simp_all add: reserved_def)
  have d: "distinct [''a'', ''b'', ''c'']" by simp
  note T = registry_invariant[of "[AddRes 1 ''in'' ''out'', AddCap 1 ''out'' ''gnd'']"]
  have t1: "self_node_id ?c ''vss'' = Some (-1)" using T by blast
  have t2: "0 \<le> (1::int) \<and> 1 < self_n ?c" using T r(1) c(1) by blast
  have t5: "fst (get_node_id ''x'' ?c) = self_n ?c" using T c(2) by blast
  have t6: "fst (get_node_id ''x'' (build_from (snd (get_node_id ''x'' ?c)) [AddCap 1 ''y'' ''x''])) =
      fst (get_node_id ''x'' ?c)" using T by blast
  have t7: "fst (resolve_names [''a'', ''b'', ''c''] LTICircuit_init) =
      map int [0..<length [''a'', ''b'', ''c'']]" using T d r(2) by blast
  have t7': "fst (resolve_names [''a'', ''b'', ''c''] LTICircuit_init) = [0, 1, 2]"
    unfolding t7 by (simp add: upt_rec)
  show ?thesis
    using r d c t1 t2 t5 t6 t7' by (simp del: resolve_names.simps)
qed

section \<open>Self-loops\<close>

text \<open>
  Claim C9. An element whose two terminals resolve to the same node index is dropped:
  \<^verbatim>\<open>add_res\<close> and \<^verbatim>\<open>add_cap\<close> return without an error when their terminals resolve to
  one index, \<^verbatim>\<open>add_gm\<close> when its output pair or its control pair does, and both
  accumulators are then exactly what they were before the call.
\<close>

theorem self_loop_is_dropped:
  "(resolve_names [p_name, n_name] self = ([i, i], self') \<longrightarrow>
      add_res res p_name n_name self = (Inr (), self') \<and>
      add_cap cap p_name n_name self = (Inr (), self') \<and>
      self_gmat_data self' = self_gmat_data self \<and>
      self_cmat_data self' = self_cmat_data self) \<and>
   (resolve_names [p_name, n_name, cp_name, cn_name] self =
        ([node_p, node_n, node_cp, node_cn], self'') \<and>
    (node_p = node_n \<or> node_cp = node_cn) \<longrightarrow>
      add_gm gm p_name n_name cp_name cn_name self = (Inr (), self'') \<and>
      self_gmat_data self'' = self_gmat_data self \<and>
      self_cmat_data self'' = self_cmat_data self)"
proof (intro conjI impI)
  assume r: "resolve_names [p_name, n_name] self = ([i, i], self')"
  have eq: "fst (get_node_id p_name self) = fst (get_node_id n_name (snd (get_node_id p_name self)))"
    and s': "self' = snd (get_node_id n_name (snd (get_node_id p_name self)))"
    using r unfolding resolve_names_2 by simp_all
  show "add_res res p_name n_name self = (Inr (), self')"
    using eq s' by (simp add: add_res_def case_prod_beta)
  show "add_cap cap p_name n_name self = (Inr (), self')"
    using eq s' by (simp add: add_cap_def case_prod_beta)
  show "self_gmat_data self' = self_gmat_data self" "self_cmat_data self' = self_cmat_data self"
    using s' by simp_all
next
  assume a: "resolve_names [p_name, n_name, cp_name, cn_name] self =
        ([node_p, node_n, node_cp, node_cn], self'') \<and>
    (node_p = node_n \<or> node_cp = node_cn)"
  have s'': "self'' = snd (resolve_names [p_name, n_name, cp_name, cn_name] self)"
    using a by (metis snd_conv)
  show "add_gm gm p_name n_name cp_name cn_name self = (Inr (), self'')"
    using a unfolding resolve_names_4 by (auto simp add: add_gm_def case_prod_beta Let_def)
  show "self_gmat_data self'' = self_gmat_data self" "self_cmat_data self'' = self_cmat_data self"
    unfolding s'' by (rule resolve_names_tables)+
qed

theorem self_loop_is_dropped_witness:
  "add_res 0 ''x'' ''x'' LTICircuit_init = (Inr (), snd (get_node_id ''x'' LTICircuit_init)) \<and>
   add_cap 1 ''x'' ''x'' LTICircuit_init = (Inr (), snd (get_node_id ''x'' LTICircuit_init)) \<and>
   self_gmat_data (snd (get_node_id ''x'' LTICircuit_init)) = [] \<and>
   add_gm 1 ''a'' ''b'' ''vss'' ''gnd'' LTICircuit_init =
     (Inr (), snd (resolve_names [''a'', ''b''] LTICircuit_init))"
proof -
  have h1: "resolve_names [''x'', ''x''] LTICircuit_init = ([0, 0], snd (get_node_id ''x'' LTICircuit_init))"
    by (simp add: get_node_id_def LTICircuit_init_def Let_def)
  have h2: "resolve_names [''a'', ''b'', ''vss'', ''gnd''] LTICircuit_init =
      ([0, 1, -1, -1], snd (resolve_names [''a'', ''b''] LTICircuit_init)) \<and> ((0::int) = 1 \<or> (-1::int) = -1)"
    by (simp add: get_node_id_def LTICircuit_init_def Let_def)
  show ?thesis
    using self_loop_is_dropped[where p_name = "''x''" and n_name = "''x''" and self = LTICircuit_init
        and i = 0 and self' = "snd (get_node_id ''x'' LTICircuit_init)" and res = 0 and cap = 1
        and self'' = LTICircuit_init and cp_name = "''x''" and cn_name = "''x''" 
        and node_p = 1 and node_n = 1 and node_cp = 1 and node_cn = 1 and gm = 1] h1
      self_loop_is_dropped[where p_name = "''a''" and n_name = "''b''" and self = LTICircuit_init
        and i = 0 and self' = LTICircuit_init and res = 0 and cap = 1
        and self'' = "snd (resolve_names [''a'', ''b''] LTICircuit_init)" and cp_name = "''vss''" and cn_name = "''gnd''" 
        and node_p = 0 and node_n = 1 and node_cp = "-1" and node_cn = "-1" and gm = 1] h2
    by (simp add: LTICircuit_init_def)
qed

section \<open>The accumulators\<close>

lemma stamp_empty:
  "stamp kvs [] = (case kvs of [] \<Rightarrow> (Inr (), []) | (k, v) # _ \<Rightarrow> (Inl (KeyError k), []))"
  by (cases kvs) auto

lemma snd_stamp_empty [simp]: "snd (stamp kvs []) = []"
  by (simp add: stamp_empty split: list.splits)

lemma add_res_gmat_empty:
  "self_gmat_data self = [] \<Longrightarrow> self_gmat_data (snd (add_res res p n self)) = []"
  by (simp add: add_res_def case_prod_beta Let_def)

lemma add_gm_gmat_empty:
  "self_gmat_data self = [] \<Longrightarrow> self_gmat_data (snd (add_gm gm p n cp cn self)) = []"
  by (simp add: add_gm_def case_prod_beta Let_def)

lemma add_cap_cmat_empty:
  "self_cmat_data self = [] \<Longrightarrow> self_cmat_data (snd (add_cap cap p n self)) = []"
  by (simp add: add_cap_def case_prod_beta Let_def)

lemma build_accumulators_empty:
  "self_gmat_data (build calls) = [] \<and> self_cmat_data (build calls) = []"
  unfolding build_def
  by (rule build_from_preserves[where P = "\<lambda>s. self_gmat_data s = [] \<and> self_cmat_data s = []"])
     (simp_all add: add_res_gmat_empty add_gm_gmat_empty add_cap_cmat_empty
        add_res_registry add_cap_registry add_gm_registry LTICircuit_init_def)

lemma add_res_empty_raises:
  assumes "self_gmat_data self = []" "res \<noteq> 0"
    and "resolve_names [p_name, n_name] self = ([i, j], self')" "i \<noteq> j"
  shows "add_res res p_name n_name self = (Inl (KeyError (max i j, max i j)), self')"
proof -
  have ij: "fst (get_node_id p_name self) = i"
    "fst (get_node_id n_name (snd (get_node_id p_name self))) = j"
    "self' = snd (get_node_id n_name (snd (get_node_id p_name self)))"
    using assms(3) unfolding resolve_names_2 by simp_all
  have g: "self_gmat_data self' = []" using assms(1) ij(3) by simp
  have r: "self'\<lparr>self_gmat_data := []\<rparr> = self'" using g by simp
  show ?thesis
    using assms(2,4) ij(1,2) g r unfolding ij(3)[symmetric]
    by (simp add: add_res_def case_prod_beta Let_def stamp_empty ij(3)[symmetric] max_def)
qed

text \<open>When the keys a resistor writes are present, \<^verbatim>\<open>add_res\<close> does accumulate: \<open>1/R\<close> is
  added on the diagonal and subtracted off the diagonal.\<close>

lemma stamp_existing:
  assumes "fst ` set kvs \<subseteq> dom (map_of t)"
  shows "fst (stamp kvs t) = Inr () \<and>
         (\<forall>k. map_of (snd (stamp kvs t)) k =
              map_option (\<lambda>x. x + sum_list (map snd (filter (\<lambda>(k', v). k' = k) kvs)))
                (map_of t k))"
  using assms
proof (induction kvs arbitrary: t)
  case Nil
  then show ?case by (simp add: option.map_ident)
next
  case (Cons kv kvs)
  obtain k v where kv: "kv = (k, v)" by (cases kv)
  obtain x where x: "map_of t k = Some x" using Cons.prems kv by auto
  let ?t = "AList.update k (x + v) t"
  have m: "map_of ?t = (map_of t)(k \<mapsto> x + v)" by (rule update_conv')
  have "fst ` set kvs \<subseteq> dom (map_of ?t)" using Cons.prems by (auto simp: m)
  note IH = Cons.IH[OF this]
  have s: "stamp (kv # kvs) t = stamp kvs ?t" by (simp add: kv x)
  show ?case
    unfolding s using IH x by (auto simp: m kv map_option_case split: option.splits)
qed

lemma add_res_existing:
  assumes "resolve_names [p_name, n_name] self = ([i, j], self')"
      and "i \<noteq> j" "0 \<le> i" "0 \<le> j" "res \<noteq> 0"
      and "{(i, i), (i, j), (j, i), (j, j)} \<subseteq> dom (map_of (self_gmat_data self))"
  shows "fst (add_res res p_name n_name self) = Inr () \<and>
         (\<forall>k. map_of (self_gmat_data (snd (add_res res p_name n_name self))) k =
              map_option (\<lambda>x. x + (if k = (i, i) \<or> k = (j, j) then 1 / res
                                     else if k = (i, j) \<or> k = (j, i) then - (1 / res) else 0))
                (map_of (self_gmat_data self) k)) \<and>
         self_cmat_data (snd (add_res res p_name n_name self)) = self_cmat_data self"
proof -
  have ij: "fst (get_node_id p_name self) = i"
    "fst (get_node_id n_name (snd (get_node_id p_name self))) = j"
    "self' = snd (get_node_id n_name (snd (get_node_id p_name self)))"
    using assms(1) unfolding resolve_names_2 by simp_all
  have g: "self_gmat_data self' = self_gmat_data self" unfolding ij(3) by simp
  define p where "p = max i j"
  define n where "n = min i j"
  define kvs where "kvs = [((p, p), 1 / res), ((p, n), - (1 / res)), ((n, n), 1 / res), ((n, p), - (1 / res))]"
  have pn: "p \<noteq> n" "0 \<le> n" "{(p, p), (p, n), (n, n), (n, p)} = {(i, i), (i, j), (j, i), (j, j)}"
    using assms(2-4) by (auto simp: p_def n_def max_def min_def)
  have sub: "fst ` set kvs \<subseteq> dom (map_of (self_gmat_data self'))"
    using assms(6) pn(3) unfolding g kvs_def by auto
  note S = stamp_existing[OF sub]
  have a: "add_res res p_name n_name self =
      (fst (stamp kvs (self_gmat_data self')), self'\<lparr>self_gmat_data := snd (stamp kvs (self_gmat_data self'))\<rparr>)"
  proof (cases "i < j")
    case True
    then show ?thesis
      using assms(2-5) ij(1,2)
      by (simp add: add_res_def case_prod_beta Let_def ij(3)[symmetric] kvs_def p_def n_def
          max_def min_def del: stamp.simps)
  next
    case False
    then show ?thesis
      using assms(2-5) ij(1,2)
      by (simp add: add_res_def case_prod_beta Let_def ij(3)[symmetric] kvs_def p_def n_def
          max_def min_def del: stamp.simps)
  qed
  have sum: "sum_list (map snd (filter (\<lambda>(k', v). k' = k) kvs)) =
      (if k = (i, i) \<or> k = (j, j) then 1 / res
       else if k = (i, j) \<or> k = (j, i) then - (1 / res) else 0)" for k
    using assms(2) by (auto simp: kvs_def p_def n_def max_def min_def)
  show ?thesis
    unfolding a using S by (simp add: sum g ij(3))
qed

text \<open>
  Claim C1 (the code departs from it). The accumulators are plain dicts, created empty,
  and every statement that writes to them is \<^verbatim>\<open>d[key] += v\<close> or \<^verbatim>\<open>d[key] -= v\<close>, which
  reads the key first. On a fresh circuit, adding a 1 Ohm resistor between two new nets
  raises \<^verbatim>\<open>KeyError\<close> for the key \<open>(1, 1)\<close> and leaves the conductance accumulator empty.
  (\<open>build_accumulators_empty\<close> and \<open>add_res_empty_raises\<close> above: no sequence of calls
  ever creates an entry, so this is the outcome for any two distinct nodes. Where the
  entries exist, \<open>add_res_existing\<close> gives the increments the claim states.)
\<close>

theorem add_res_raises_KeyError:
  "add_res 1 ''a'' ''b'' LTICircuit_init =
     (Inl (KeyError (1, 1)), snd (resolve_names [''a'', ''b''] LTICircuit_init)) \<and>
   self_gmat_data (snd (add_res 1 ''a'' ''b'' LTICircuit_init)) = []"
  by (simp add: add_res_def get_node_id_def LTICircuit_init_def Let_def)

section \<open>Trimming the numerator\<close>

lemma strip_leading_dropWhile:
  "strip_leading atol num =
     (case dropWhile (\<lambda>x. \<bar>x\<bar> \<le> atol) num of [] \<Rightarrow> Inl IndexError | y # ys \<Rightarrow> Inr (y # ys))"
  by (induction num) auto









section \<open>The queries\<close>

lemma bindE_Inl_iff:
  "bindE m f = Inl e \<longleftrightarrow> m = Inl e \<or> (\<exists>x. m = Inr x \<and> f x = Inl e)"
  by (cases m) (simp_all add: bindE_def)

lemma bindE_Inr_iff:
  "bindE m f = Inr y \<longleftrightarrow> (\<exists>x. m = Inr x \<and> f x = Inr y)"
  by (cases m) (simp_all add: bindE_def)

lemma bindE_simps [simp]:
  "bindE (Inl e) f = Inl e" "bindE (Inr x) f = f x"
  by (simp_all add: bindE_def)

lemma csc_matrix_Inl:
  "csc_matrix entries shape = Inl e \<Longrightarrow>
     e \<in> {ValueError ''invalid shape'', ValueError ''row index exceeds matrix dimensions'',
          ValueError ''column index exceeds matrix dimensions'',
          ValueError ''negative row index found'', ValueError ''negative column index found''}"
  by (auto simp: csc_matrix_def split: prod.splits if_splits)

lemma dict_to_csc_mat_Inl:
  "dict_to_csc_mat table shape r c = Inl e \<Longrightarrow>
     e \<in> {ValueError ''invalid shape'', ValueError ''row index exceeds matrix dimensions'',
          ValueError ''column index exceeds matrix dimensions'',
          ValueError ''negative row index found'', ValueError ''negative column index found''}"
  unfolding dict_to_csc_mat_def by (rule csc_matrix_Inl)

text \<open>Every materialized matrix is a sparse matrix, and so is every slice and every negation
  of one.\<close>

lemma csc_matrix_sparse: "csc_matrix entries shape = Inr m \<Longrightarrow> is_sparse m"
  by (auto simp: csc_matrix_def split: prod.splits if_splits)

lemma dict_to_csc_mat_sparse: "dict_to_csc_mat table shape r c = Inr m \<Longrightarrow> is_sparse m"
  unfolding dict_to_csc_mat_def by (rule csc_matrix_sparse)

lemma is_sparse_slice_cols [simp]: "is_sparse (slice_cols m start stop) = is_sparse m"
  by (simp add: slice_cols_def case_prod_beta Let_def)

lemma is_sparse_select_cols [simp]: "is_sparse (select_cols m cols) = is_sparse m"
  by (simp add: select_cols_def)

lemma is_sparse_mneg [simp]: "is_sparse (mneg m) = is_sparse m"
  by (simp add: mneg_def)

lemma call_solve_sparse: "is_sparse b \<Longrightarrow> call_solve solve_fun b = Inl TypeError"
  by (simp add: call_solve_def)

lemma factorized_Inl:
  "factorized lib m = Inl e \<Longrightarrow>
     e = ValueError ''can only factor square matrices'' \<and> nrows m \<noteq> ncols m \<or>
     e = RuntimeError ''Factor is exactly singular'' \<and> nrows m = ncols m \<and> splu lib m = None"
  by (auto simp: factorized_def split: if_splits option.splits)

lemma py_index_Inl: "py_index i len = Inl e \<Longrightarrow> e = IndexError"
  by (auto simp: py_index_def Let_def split: if_splits)

lemma py_index_in_range: "0 \<le> i \<Longrightarrow> i < int len \<Longrightarrow> py_index i len = Inr (nat i)"
  by (simp add: py_index_def)

lemma setitem2_zeros_col:
  "setitem2 (zeros r 1) i 0 v =
     (case py_index i (nat r) of
        Inl e \<Rightarrow> Inl IndexError
      | Inr i' \<Rightarrow> Inr \<lparr>is_sparse = False, nrows = nat r, ncols = 1,
                       elems = (replicate (nat r) [0])[i' := [v]]\<rparr>)"
  by (auto simp: setitem2_def zeros_def py_index_def Let_def split: if_splits)

subsection \<open>The voltage-gain query\<close>

lemma voltage_gain_matrices_Inl:
  assumes "voltage_gain_matrices self in_name out_name = Inl e"
  shows "e = KeyError_name in_name \<or> e = KeyError_name out_name \<or>
         (e = ValueError ''Input and output nodes are the same.'' \<and>
          (\<exists>i. self_node_id self in_name = Some i \<and> self_node_id self out_name = Some i)) \<or>
         e \<in> {ValueError ''invalid shape'', ValueError ''row index exceeds matrix dimensions'',
          ValueError ''column index exceeds matrix dimensions'',
          ValueError ''negative row index found'', ValueError ''negative column index found''}"
  using assms
  by (auto simp: voltage_gain_matrices_def bindE_Inl_iff lookup_node_def Let_def
      split: option.splits if_splits dest!: dict_to_csc_mat_Inl)

lemma voltage_gain_matrices_Inr:
  assumes "voltage_gain_matrices self in_name out_name =
             Inr (node_in, node_out, gmat, cmat, gmat_core, cmat_core)"
  shows "self_node_id self in_name = Some node_in" "self_node_id self out_name = Some node_out"
    "node_in \<noteq> node_out"
    "dict_to_csc_mat (self_gmat_data self) (self_n self - 1, self_n self) node_in (-1) = Inr gmat"
    "dict_to_csc_mat (self_cmat_data self) (self_n self - 1, self_n self) node_in (-1) = Inr cmat"
    "gmat_core = select_cols gmat (filter (\<lambda>idx. idx \<noteq> node_in) [0..self_n self - 1])"
    "cmat_core = select_cols cmat (filter (\<lambda>idx. idx \<noteq> node_in) [0..self_n self - 1])"
  using assms
  by (auto simp: voltage_gain_matrices_def bindE_Inr_iff lookup_node_def Let_def
      split: option.splits if_splits)

text \<open>
  Once the matrices are built, the outcome of lines 239-259 depends on the factorization
  only: \<^verbatim>\<open>cvec_in\<close> is a slice of a sparse matrix, so the first call of the solve function,
  on line 251, raises \<^verbatim>\<open>TypeError\<close>, and no later statement is reached.
\<close>

lemma voltage_gain_state_space_outcome:
  assumes "voltage_gain_matrices self in_name out_name =
             Inr (node_in, node_out, gmat, cmat, gmat_core, cmat_core)"
  shows "voltage_gain_state_space lib self in_name out_name =
           (case factorized lib cmat_core of
              Inl (RuntimeError msg) \<Rightarrow> Inl (ValueError ''cap matrix is singular.'')
            | Inl e \<Rightarrow> Inl e
            | Inr solve_fun \<Rightarrow> Inl TypeError)"
proof -
  have "is_sparse cmat"
    using voltage_gain_matrices_Inr(5)[OF assms] by (rule dict_to_csc_mat_sparse)
  then have "call_solve solve_fun (slice_cols cmat node_in (node_in + 1)) = Inl TypeError"
    for solve_fun
    by (simp add: call_solve_sparse)
  then show ?thesis
    by (simp add: voltage_gain_state_space_def assms Let_def split: sum.splits error.splits)
qed

lemma voltage_gain_state_space_Inl:
  assumes "voltage_gain_state_space lib self in_name out_name = Inl e"
  shows "voltage_gain_matrices self in_name out_name = Inl e \<or>
         (\<exists>node_in node_out gmat cmat gmat_core cmat_core.
            voltage_gain_matrices self in_name out_name =
              Inr (node_in, node_out, gmat, cmat, gmat_core, cmat_core) \<and>
            (factorized lib cmat_core = Inl (RuntimeError ''Factor is exactly singular'') \<and>
               e = ValueError ''cap matrix is singular.'' \<or>
             factorized lib cmat_core = Inl (ValueError ''can only factor square matrices'') \<and>
               e = ValueError ''can only factor square matrices'' \<or>
             (\<exists>solve_fun. factorized lib cmat_core = Inr solve_fun) \<and> e = TypeError))"
proof (cases "voltage_gain_matrices self in_name out_name")
  case (Inl e')
  then show ?thesis
    using assms by (simp add: voltage_gain_state_space_def)
next
  case (Inr t)
  obtain node_in node_out gmat cmat gmat_core cmat_core
    where t: "t = (node_in, node_out, gmat, cmat, gmat_core, cmat_core)"
    by (metis prod_cases6)
  note m = Inr[unfolded t]
  show ?thesis
  proof (cases "factorized lib cmat_core")
    case (Inl e')
    then show ?thesis
      using assms factorized_Inl[OF Inl] m
      by (auto simp: voltage_gain_state_space_outcome[OF m])
  next
    case (Inr solve_fun)
    then show ?thesis
      using assms m by (auto simp: voltage_gain_state_space_outcome[OF m])
  qed
qed

lemma voltage_gain_state_space_not_Inr:
  "voltage_gain_state_space lib self in_name out_name \<noteq> Inr sys"
proof (cases "voltage_gain_matrices self in_name out_name")
  case (Inl e)
  then show ?thesis by (simp add: voltage_gain_state_space_def)
next
  case (Inr t)
  obtain node_in node_out gmat cmat gmat_core cmat_core
    where t: "t = (node_in, node_out, gmat, cmat, gmat_core, cmat_core)"
    by (metis prod_cases6)
  note m = Inr[unfolded t]
  show ?thesis
    unfolding voltage_gain_state_space_outcome[OF m]
    by (simp split: sum.splits error.splits)
qed

lemma get_voltage_gain_system_outcome:
  "get_voltage_gain_system lib self in_name out_name atol =
     (case voltage_gain_state_space lib self in_name out_name of
        Inl e \<Rightarrow> Inl e | Inr sys \<Rightarrow> Inl TypeError)"
  by (cases "voltage_gain_state_space lib self in_name out_name")
     (simp_all add: get_voltage_gain_system_def voltage_gain_state_space_not_Inr)

lemma get_voltage_gain_system_Inl:
  "get_voltage_gain_system lib self in_name out_name atol = Inl e \<longleftrightarrow>
     voltage_gain_state_space lib self in_name out_name = Inl e"
  by (cases "voltage_gain_state_space lib self in_name out_name")
     (simp_all add: get_voltage_gain_system_def voltage_gain_state_space_not_Inr)


text \<open>
  Claim C6. For input and output names that are in the registry, the voltage-gain query
  raises \<^verbatim>\<open>ValueError('Input and output nodes are the same.')\<close> (the spec's
  \<open>SameNodeError\<close>) exactly when the two names resolve to the same index; when the
  indices differ the outcome is never that error.
\<close>

theorem same_node_error_iff:
  assumes "self_node_id self in_name = Some node_in"
      and "self_node_id self out_name = Some node_out"
  shows "get_voltage_gain_system lib self in_name out_name atol =
           Inl (ValueError ''Input and output nodes are the same.'') \<longleftrightarrow>
         node_in = node_out"
proof
  assume "get_voltage_gain_system lib self in_name out_name atol =
           Inl (ValueError ''Input and output nodes are the same.'')"
  then have "voltage_gain_state_space lib self in_name out_name =
           Inl (ValueError ''Input and output nodes are the same.'')"
    by (simp add: get_voltage_gain_system_Inl)
  then have "voltage_gain_matrices self in_name out_name =
           Inl (ValueError ''Input and output nodes are the same.'')"
    by (auto dest!: voltage_gain_state_space_Inl)
  then show "node_in = node_out"
    using assms by (auto dest!: voltage_gain_matrices_Inl)
next
  assume "node_in = node_out"
  then show "get_voltage_gain_system lib self in_name out_name atol =
           Inl (ValueError ''Input and output nodes are the same.'')"
    using assms
    by (simp add: get_voltage_gain_system_def voltage_gain_state_space_def
        voltage_gain_matrices_def lookup_node_def)
qed

lemmas eval_defs = rc_parallel_def rc_divider_def build_def build_from_def get_node_id_def
  LTICircuit_init_def Let_def bindE_def lookup_node_def dict_to_csc_mat_def csc_matrix_def
  select_cols_def slice_cols_def slice_bounds_def py_index_def mneg_def zeros_def
  setitem2_def factorized_def call_solve_def scalar_linalg_def scalar_splu_def
  scalar_solve_def upto.simps

lemmas query_defs = get_voltage_gain_system_def voltage_gain_state_space_def
  voltage_gain_matrices_def get_impedance_gain_system_def impedance_gain_state_space_def
  impedance_gain_matrices_def

theorem same_node_error_iff_witness:
  "self_node_id rc_divider ''out'' = Some 0 \<and> self_node_id rc_divider ''in'' = Some 1 \<and>
   self_node_id rc_divider ''gnd'' = Some (-1) \<and> self_node_id rc_divider ''vdd'' = Some (-1) \<and>
   get_voltage_gain_system scalar_linalg rc_divider ''in'' ''out'' 0 = Inl TypeError \<and>
   get_voltage_gain_system scalar_linalg rc_divider ''gnd'' ''vdd'' 0 =
     Inl (ValueError ''Input and output nodes are the same.'') \<and>
   self_node_id (build [AddRes 1 ''out'' ''in'']) ''out'' = Some 0 \<and>
   self_node_id (build [AddRes 1 ''out'' ''in'']) ''in'' = Some 1 \<and>
   get_voltage_gain_system scalar_linalg (build [AddRes 1 ''out'' ''in'']) ''in'' ''out'' 0 =
     Inl (ValueError ''cap matrix is singular.'') \<and>
   get_voltage_gain_system scalar_linalg (build [AddRes 1 ''out'' ''in'']) ''in'' ''in'' 0 =
     Inl (ValueError ''Input and output nodes are the same.'')"
proof -
  let ?c = "build [AddRes 1 ''out'' ''in'']"
  have r: "self_node_id rc_divider ''out'' = Some 0" "self_node_id rc_divider ''in'' = Some 1"
    "self_node_id rc_divider ''gnd'' = Some (-1)" "self_node_id rc_divider ''vdd'' = Some (-1)"
    by (simp_all add: eval_defs)
  have c: "self_node_id ?c ''out'' = Some 0" "self_node_id ?c ''in'' = Some 1"
    by (simp_all add: eval_defs add_res_def)
  have v: "get_voltage_gain_system scalar_linalg rc_divider ''in'' ''out'' 0 = Inl TypeError"
    by (simp add: query_defs eval_defs)
  have w: "get_voltage_gain_system scalar_linalg ?c ''in'' ''out'' 0 =
      Inl (ValueError ''cap matrix is singular.'')"
    by (simp add: query_defs eval_defs add_res_def)
  have 1: "get_voltage_gain_system scalar_linalg rc_divider ''gnd'' ''vdd'' 0 =
     Inl (ValueError ''Input and output nodes are the same.'')"
    using same_node_error_iff[OF r(3) r(4), of scalar_linalg 0] by simp
  have 2: "get_voltage_gain_system scalar_linalg ?c ''in'' ''in'' 0 =
     Inl (ValueError ''Input and output nodes are the same.'')"
    using same_node_error_iff[OF c(2) c(2), of scalar_linalg 0] by simp
  show ?thesis
    using r c v w 1 2 by blast
qed

subsection \<open>The impedance-gain query\<close>

lemma impedance_gain_matrices_Inl:
  assumes "impedance_gain_matrices self in_name out_name short_name = Inl e"
  shows "e = KeyError_name in_name \<or> e = KeyError_name out_name \<or>
         e = KeyError_name short_name \<or>
         (e = ValueError ''Shorting input/output.'' \<and> short_name \<noteq> [] \<and>
          (\<exists>i j k. self_node_id self in_name = Some i \<and> self_node_id self out_name = Some j \<and>
             self_node_id self short_name = Some k \<and> (i = k \<or> j = k))) \<or>
         e \<in> {ValueError ''invalid shape'', ValueError ''row index exceeds matrix dimensions'',
          ValueError ''column index exceeds matrix dimensions'',
          ValueError ''negative row index found'', ValueError ''negative column index found''}"
  using assms
  by (auto simp: impedance_gain_matrices_def bindE_Inl_iff lookup_node_def Let_def
      split: option.splits if_splits dest!: dict_to_csc_mat_Inl)

lemma impedance_gain_matrices_Inr:
  assumes "impedance_gain_matrices self in_name out_name short_name =
             Inr (node_in, node_out, mat_shape, gmat, cmat)"
  shows "short_name = [] \<longrightarrow>
           self_node_id self in_name = Some node_in \<and> self_node_id self out_name = Some node_out \<and>
           mat_shape = (self_n self, self_n self) \<and>
           dict_to_csc_mat (self_gmat_data self) mat_shape (-1) (-1) = Inr gmat \<and>
           dict_to_csc_mat (self_cmat_data self) mat_shape (-1) (-1) = Inr cmat"
    and "short_name \<noteq> [] \<longrightarrow>
           (\<exists>node_in0 node_out0 node_short.
              self_node_id self in_name = Some node_in0 \<and>
              self_node_id self out_name = Some node_out0 \<and>
              self_node_id self short_name = Some node_short \<and>
              node_in0 \<noteq> node_short \<and> node_out0 \<noteq> node_short \<and>
              node_in = (if node_in0 > node_short then node_in0 - 1 else node_in0) \<and>
              node_out = (if node_out0 > node_short then node_out0 - 1 else node_out0) \<and>
              mat_shape = (self_n self - 1, self_n self - 1) \<and>
              dict_to_csc_mat (self_gmat_data self) mat_shape node_short node_short = Inr gmat \<and>
              dict_to_csc_mat (self_cmat_data self) mat_shape node_short node_short = Inr cmat)"
  using assms
  by (auto simp: impedance_gain_matrices_def bindE_Inr_iff lookup_node_def Let_def
      split: option.splits if_splits)

lemma impedance_gain_matrices_sparse:
  assumes "impedance_gain_matrices self in_name out_name short_name =
             Inr (node_in, node_out, mat_shape, gmat, cmat)"
  shows "is_sparse gmat"
  using impedance_gain_matrices_Inr[OF assms]
  by (cases "short_name = []") (auto dest: dict_to_csc_mat_sparse)

text \<open>
  Once the matrices are built and \<^verbatim>\<open>cmat\<close> is factorized, line 318 writes the input entry of
  the column \<^verbatim>\<open>bmat\<close> (\<^verbatim>\<open>IndexError\<close> when the index addresses no row), and line 321 calls
  the solve function on \<^verbatim>\<open>-gmat\<close>, a sparse matrix: it raises \<^verbatim>\<open>TypeError\<close>, and no later
  statement is reached.
\<close>

lemma impedance_gain_state_space_outcome:
  assumes "impedance_gain_matrices self in_name out_name short_name =
             Inr (node_in, node_out, mat_shape, gmat, cmat)"
  shows "impedance_gain_state_space lib self in_name out_name short_name =
           (case factorized lib cmat of
              Inl (RuntimeError msg) \<Rightarrow> Inl (ValueError ''cap matrix is singular.'')
            | Inl e \<Rightarrow> Inl e
            | Inr solve_fun \<Rightarrow>
                (case py_index node_in (nat (fst mat_shape)) of
                   Inl e \<Rightarrow> Inl IndexError
                 | Inr in_row \<Rightarrow> Inl TypeError))"
proof -
  have "is_sparse gmat"
    using assms by (rule impedance_gain_matrices_sparse)
  then have "call_solve solve_fun (mneg gmat) = Inl TypeError" for solve_fun
    by (simp add: call_solve_sparse)
  then show ?thesis
    by (simp add: impedance_gain_state_space_def assms setitem2_zeros_col
        split: sum.splits error.splits)
qed

lemma impedance_gain_state_space_Inl:
  assumes "impedance_gain_state_space lib self in_name out_name short_name = Inl e"
  shows "impedance_gain_matrices self in_name out_name short_name = Inl e \<or>
         (\<exists>node_in node_out mat_shape gmat cmat.
            impedance_gain_matrices self in_name out_name short_name =
              Inr (node_in, node_out, mat_shape, gmat, cmat) \<and>
            (factorized lib cmat = Inl (RuntimeError ''Factor is exactly singular'') \<and>
               e = ValueError ''cap matrix is singular.'' \<or>
             factorized lib cmat = Inl (ValueError ''can only factor square matrices'') \<and>
               e = ValueError ''can only factor square matrices'' \<or>
             (\<exists>solve_fun. factorized lib cmat = Inr solve_fun) \<and>
               (e = IndexError \<or> e = TypeError)))"
proof (cases "impedance_gain_matrices self in_name out_name short_name")
  case (Inl e')
  then show ?thesis
    using assms by (simp add: impedance_gain_state_space_def)
next
  case (Inr t)
  obtain node_in node_out mat_shape gmat cmat
    where t: "t = (node_in, node_out, mat_shape, gmat, cmat)"
    by (metis prod_cases5)
  note m = Inr[unfolded t]
  show ?thesis
  proof (cases "factorized lib cmat")
    case (Inl e')
    then show ?thesis
      using assms factorized_Inl[OF Inl] m
      by (auto simp: impedance_gain_state_space_outcome[OF m])
  next
    case (Inr solve_fun)
    then show ?thesis
      using assms m
      by (auto simp: impedance_gain_state_space_outcome[OF m] split: sum.splits)
  qed
qed

lemma impedance_gain_state_space_not_Inr:
  "impedance_gain_state_space lib self in_name out_name short_name \<noteq> Inr sys"
proof (cases "impedance_gain_matrices self in_name out_name short_name")
  case (Inl e)
  then show ?thesis by (simp add: impedance_gain_state_space_def)
next
  case (Inr t)
  obtain node_in node_out mat_shape gmat cmat
    where t: "t = (node_in, node_out, mat_shape, gmat, cmat)"
    by (metis prod_cases5)
  note m = Inr[unfolded t]
  show ?thesis
    unfolding impedance_gain_state_space_outcome[OF m]
    by (simp split: sum.splits error.splits)
qed

lemma get_impedance_gain_system_Inl:
  "get_impedance_gain_system lib self in_name out_name short_name atol = Inl e \<longleftrightarrow>
     impedance_gain_state_space lib self in_name out_name short_name = Inl e"
  by (cases "impedance_gain_state_space lib self in_name out_name short_name")
     (simp_all add: get_impedance_gain_system_def impedance_gain_state_space_not_Inr)





text \<open>
  Claim C5. Once the matrices of a query are built, the query raises
  \<^verbatim>\<open>ValueError('cap matrix is singular.')\<close> (the spec's \<open>SingularMatrixError\<close>) exactly
  when the factorization of the capacitance matrix it uses (\<open>cmat_core\<close> for the voltage
  gain, \<open>cmat\<close> for the impedance gain) raises \<^verbatim>\<open>RuntimeError\<close>: a failed factorization
  never yields a transfer function, and a successful one never yields this error. An
  error raised before the factorization is a different error and is the query's outcome.
\<close>

theorem singular_error_iff:
  "(voltage_gain_matrices self in_name out_name =
      Inr (node_in, node_out, gmat, cmat, gmat_core, cmat_core) \<longrightarrow>
    (get_voltage_gain_system lib self in_name out_name atol =
       Inl (ValueError ''cap matrix is singular.'') \<longleftrightarrow>
     factorized lib cmat_core = Inl (RuntimeError ''Factor is exactly singular''))) \<and>
   (impedance_gain_matrices self in_name' out_name' short_name =
      Inr (node_in', node_out', mat_shape, gmat', cmat') \<longrightarrow>
    (get_impedance_gain_system lib self in_name' out_name' short_name atol =
       Inl (ValueError ''cap matrix is singular.'') \<longleftrightarrow>
     factorized lib cmat' = Inl (RuntimeError ''Factor is exactly singular''))) \<and>
   (voltage_gain_matrices self in_name out_name = Inl e \<longrightarrow>
      e \<noteq> ValueError ''cap matrix is singular.'' \<and>
      get_voltage_gain_system lib self in_name out_name atol = Inl e) \<and>
   (impedance_gain_matrices self in_name' out_name' short_name = Inl e' \<longrightarrow>
      e' \<noteq> ValueError ''cap matrix is singular.'' \<and>
      get_impedance_gain_system lib self in_name' out_name' short_name atol = Inl e')"
proof -
  have v: "get_voltage_gain_system lib self in_name out_name atol =
       Inl (ValueError ''cap matrix is singular.'') \<longleftrightarrow>
     factorized lib cmat_core = Inl (RuntimeError ''Factor is exactly singular'')"
    if m: "voltage_gain_matrices self in_name out_name =
      Inr (node_in, node_out, gmat, cmat, gmat_core, cmat_core)"
  proof
    assume "get_voltage_gain_system lib self in_name out_name atol =
       Inl (ValueError ''cap matrix is singular.'')"
    then have "voltage_gain_state_space lib self in_name out_name =
       Inl (ValueError ''cap matrix is singular.'')"
      by (simp add: get_voltage_gain_system_Inl)
    then show "factorized lib cmat_core = Inl (RuntimeError ''Factor is exactly singular'')"
      using m by (auto dest!: voltage_gain_state_space_Inl)
  next
    assume "factorized lib cmat_core = Inl (RuntimeError ''Factor is exactly singular'')"
    then show "get_voltage_gain_system lib self in_name out_name atol =
       Inl (ValueError ''cap matrix is singular.'')"
      by (simp add: get_voltage_gain_system_Inl voltage_gain_state_space_outcome[OF m])
  qed
  have i: "get_impedance_gain_system lib self in_name' out_name' short_name atol =
       Inl (ValueError ''cap matrix is singular.'') \<longleftrightarrow>
     factorized lib cmat' = Inl (RuntimeError ''Factor is exactly singular'')"
    if m: "impedance_gain_matrices self in_name' out_name' short_name =
      Inr (node_in', node_out', mat_shape, gmat', cmat')"
  proof
    assume "get_impedance_gain_system lib self in_name' out_name' short_name atol =
       Inl (ValueError ''cap matrix is singular.'')"
    then have "impedance_gain_state_space lib self in_name' out_name' short_name =
       Inl (ValueError ''cap matrix is singular.'')"
      by (simp add: get_impedance_gain_system_Inl)
    then show "factorized lib cmat' = Inl (RuntimeError ''Factor is exactly singular'')"
      using m by (auto dest!: impedance_gain_state_space_Inl)
  next
    assume "factorized lib cmat' = Inl (RuntimeError ''Factor is exactly singular'')"
    then show "get_impedance_gain_system lib self in_name' out_name' short_name atol =
       Inl (ValueError ''cap matrix is singular.'')"
      by (simp add: get_impedance_gain_system_Inl impedance_gain_state_space_outcome[OF m])
  qed
  have ve: "e \<noteq> ValueError ''cap matrix is singular.'' \<and>
      get_voltage_gain_system lib self in_name out_name atol = Inl e"
    if m: "voltage_gain_matrices self in_name out_name = Inl e"
  proof -
    have "e \<noteq> ValueError ''cap matrix is singular.''"
      using m by (auto dest!: voltage_gain_matrices_Inl)
    moreover have "get_voltage_gain_system lib self in_name out_name atol = Inl e"
      using m by (simp add: get_voltage_gain_system_def voltage_gain_state_space_def)
    ultimately show ?thesis by simp
  qed
  have ie: "e' \<noteq> ValueError ''cap matrix is singular.'' \<and>
      get_impedance_gain_system lib self in_name' out_name' short_name atol = Inl e'"
    if m: "impedance_gain_matrices self in_name' out_name' short_name = Inl e'"
  proof -
    have "e' \<noteq> ValueError ''cap matrix is singular.''"
      using m by (auto dest!: impedance_gain_matrices_Inl)
    moreover have "get_impedance_gain_system lib self in_name' out_name' short_name atol = Inl e'"
      using m by (simp add: get_impedance_gain_system_def impedance_gain_state_space_def)
    ultimately show ?thesis by simp
  qed
  show ?thesis using v i ve ie by blast
qed

theorem singular_error_iff_witness:
  "voltage_gain_matrices (build [AddCap 1 ''out'' ''in'']) ''in'' ''out'' =
     Inr (1, 0, \<lparr>is_sparse = True, nrows = 1, ncols = 2, elems = [[0, 0]]\<rparr>,
          \<lparr>is_sparse = True, nrows = 1, ncols = 2, elems = [[0, 0]]\<rparr>,
          \<lparr>is_sparse = True, nrows = 1, ncols = 1, elems = [[0]]\<rparr>,
          \<lparr>is_sparse = True, nrows = 1, ncols = 1, elems = [[0]]\<rparr>) \<and>
   factorized scalar_linalg \<lparr>is_sparse = True, nrows = 1, ncols = 1, elems = [[0]]\<rparr> =
     Inl (RuntimeError ''Factor is exactly singular'') \<and>
   get_voltage_gain_system scalar_linalg (build [AddCap 1 ''out'' ''in'']) ''in'' ''out'' 0 =
     Inl (ValueError ''cap matrix is singular.'') \<and>
   impedance_gain_matrices rc_parallel ''out'' ''out'' [] =
     Inr (0, 0, (1, 1), \<lparr>is_sparse = True, nrows = 1, ncols = 1, elems = [[1]]\<rparr>,
          \<lparr>is_sparse = True, nrows = 1, ncols = 1, elems = [[2]]\<rparr>) \<and>
   factorized scalar_linalg \<lparr>is_sparse = True, nrows = 1, ncols = 1, elems = [[2]]\<rparr> =
     Inr (scalar_solve 2) \<and>
   get_impedance_gain_system scalar_linalg rc_parallel ''out'' ''out'' [] 0 \<noteq>
     Inl (ValueError ''cap matrix is singular.'') \<and>
   voltage_gain_matrices rc_divider ''out'' ''in'' =
     Inl (ValueError ''row index exceeds matrix dimensions'') \<and>
   get_voltage_gain_system scalar_linalg rc_divider ''out'' ''in'' 0 =
     Inl (ValueError ''row index exceeds matrix dimensions'') \<and>
   impedance_gain_matrices rc_divider ''out'' ''nc'' [] = Inl (KeyError_name ''nc'') \<and>
   get_impedance_gain_system scalar_linalg rc_divider ''out'' ''nc'' [] 0 =
     Inl (KeyError_name ''nc'')"
proof -
  let ?c = "build [AddCap 1 ''out'' ''in'']"
  let ?z12 = "\<lparr>is_sparse = True, nrows = 1, ncols = 2, elems = [[0::real, 0]]\<rparr>"
  let ?z = "\<lparr>is_sparse = True, nrows = 1, ncols = 1, elems = [[0::real]]\<rparr>"
  let ?g = "\<lparr>is_sparse = True, nrows = 1, ncols = 1, elems = [[1::real]]\<rparr>"
  let ?k = "\<lparr>is_sparse = True, nrows = 1, ncols = 1, elems = [[2::real]]\<rparr>"
  have m: "voltage_gain_matrices ?c ''in'' ''out'' = Inr (1, 0, ?z12, ?z12, ?z, ?z)"
    "impedance_gain_matrices rc_parallel ''out'' ''out'' [] = Inr (0, 0, (1, 1), ?g, ?k)"
    "voltage_gain_matrices rc_divider ''out'' ''in'' =
       Inl (ValueError ''row index exceeds matrix dimensions'')"
    "impedance_gain_matrices rc_divider ''out'' ''nc'' [] = Inl (KeyError_name ''nc'')"
    by (simp_all add: voltage_gain_matrices_def impedance_gain_matrices_def eval_defs add_cap_def)
  have f: "factorized scalar_linalg ?z = Inl (RuntimeError ''Factor is exactly singular'')"
    "factorized scalar_linalg ?k = Inr (scalar_solve 2)"
    by (simp_all add: factorized_def scalar_linalg_def scalar_splu_def)
  have f': "factorized scalar_linalg ?k \<noteq> Inl (RuntimeError ''Factor is exactly singular'')"
    using f(2) by simp
  have 1: "get_voltage_gain_system scalar_linalg ?c ''in'' ''out'' 0 =
     Inl (ValueError ''cap matrix is singular.'')"
    using m(1) f(1)
      singular_error_iff[where self = ?c and in_name = "''in''" and out_name = "''out''"
        and node_in = 1 and node_out = 0 and gmat = ?z12 and cmat = ?z12
        and gmat_core = ?z and cmat_core = ?z and lib = scalar_linalg and atol = 0]
    by blast
  have 2: "get_impedance_gain_system scalar_linalg rc_parallel ''out'' ''out'' [] 0 \<noteq>
     Inl (ValueError ''cap matrix is singular.'')"
    using m(2) f'
      singular_error_iff[where self = rc_parallel and in_name' = "''out''" and out_name' = "''out''"
        and short_name = "[]" and node_in' = 0 and node_out' = 0 and mat_shape = "(1, 1)"
        and gmat' = ?g and cmat' = ?k and lib = scalar_linalg and atol = 0]
    by blast
  have 3: "get_voltage_gain_system scalar_linalg rc_divider ''out'' ''in'' 0 =
     Inl (ValueError ''row index exceeds matrix dimensions'')"
    using m(3)
      singular_error_iff[where self = rc_divider and in_name = "''out''" and out_name = "''in''"
        and e = "ValueError ''row index exceeds matrix dimensions''" and lib = scalar_linalg
        and atol = 0]
    by blast
  have 4: "get_impedance_gain_system scalar_linalg rc_divider ''out'' ''nc'' [] 0 =
     Inl (KeyError_name ''nc'')"
    using m(4)
      singular_error_iff[where self = rc_divider and in_name' = "''out''" and out_name' = "''nc''"
        and short_name = "[]" and e' = "KeyError_name ''nc''" and lib = scalar_linalg
        and atol = 0]
    by blast
  show ?thesis
    using m f 1 2 3 4 by blast
qed

subsection \<open>The state-space model\<close>








section \<open>Dropped elements and the registry\<close>

lemma get_node_id_n_mono: "self_n self \<le> self_n (snd (get_node_id name self))"
  by (cases "self_node_id self name") (simp_all add: get_node_id_None get_node_id_Some)

lemma resolve_names_n_mono: "self_n self \<le> self_n (snd (resolve_names names self))"
proof (induction names arbitrary: self)
  case Nil
  then show ?case by simp
next
  case (Cons name names)
  have "self_n self \<le> self_n (snd (get_node_id name self))" by (rule get_node_id_n_mono)
  also have "\<dots> \<le> self_n (snd (resolve_names names (snd (get_node_id name self))))"
    by (rule Cons.IH)
  finally show ?case by (simp add: case_prod_beta)
qed

lemma get_node_id_other:
  "name' \<noteq> name \<Longrightarrow>
     self_node_id (snd (get_node_id name' self)) name = self_node_id self name"
  by (cases "self_node_id self name'") (simp_all add: get_node_id_None get_node_id_Some)

lemma resolve_names_new:
  assumes "x \<in> set names" "self_node_id self x = None"
  shows "\<exists>j. self_node_id (snd (resolve_names names self)) x = Some j \<and>
             self_n self \<le> j \<and> j < self_n (snd (resolve_names names self))"
  using assms
proof (induction names arbitrary: self)
  case Nil
  then show ?case by simp
next
  case (Cons name names)
  let ?s1 = "snd (get_node_id name self)"
  let ?s2 = "snd (resolve_names names ?s1)"
  have s2: "snd (resolve_names (name # names) self) = ?s2" by (simp add: case_prod_beta)
  show ?case
  proof (cases "name = x")
    case True
    have 1: "self_node_id ?s1 x = Some (self_n self)" "self_n ?s1 = self_n self + 1"
      using True Cons.prems(2) by (simp_all add: get_node_id_None)
    have "self_node_id ?s2 x = Some (self_n self)"
      using 1(1) by (rule resolve_names_keeps)
    moreover have "self_n self < self_n ?s2"
      using resolve_names_n_mono[of ?s1 names] 1(2) by simp
    ultimately show ?thesis unfolding s2 by simp
  next
    case False
    then have "x \<in> set names" using Cons.prems(1) by simp
    moreover have "self_node_id ?s1 x = None"
      using False Cons.prems(2) by (simp add: get_node_id_other)
    ultimately obtain j where "self_node_id ?s2 x = Some j" "self_n ?s1 \<le> j" "j < self_n ?s2"
      using Cons.IH by blast
    then show ?thesis
      unfolding s2 using get_node_id_n_mono[of self name] by auto
  qed
qed

lemma csc_matrix_shape:
  assumes "csc_matrix entries (M, N) = Inr m"
  shows "nrows m = nat M \<and> ncols m = nat N \<and>
         length (elems m) = nat M \<and> list_all (\<lambda>row. length row = nat N) (elems m)"
proof -
  have "m = \<lparr>is_sparse = True, nrows = nat M, ncols = nat N,
             elems = map (\<lambda>i. map (\<lambda>j. sum_list (map snd (filter (\<lambda>(k, data). k = (i, j)) entries)))
                              [0..N - 1])
                    [0..M - 1]\<rparr>"
    using assms by (simp add: csc_matrix_def split: if_splits)
  then show ?thesis by (simp add: list_all_iff)
qed

lemma dict_to_csc_mat_shape:
  "dict_to_csc_mat table (M, N) r c = Inr m \<Longrightarrow>
     nrows m = nat M \<and> ncols m = nat N \<and>
     length (elems m) = nat M \<and> list_all (\<lambda>row. length row = nat N) (elems m)"
  unfolding dict_to_csc_mat_def by (rule csc_matrix_shape)

lemma select_cols_in_range:
  assumes "dict_to_csc_mat table (M, N) r c = Inr m" "row \<in> set (elems m)"
      and "j \<in> set (filter (\<lambda>idx. idx \<noteq> node_in) [0..N - 1])"
  shows "0 \<le> j \<and> nat j < length row"
proof -
  have "length row = nat N"
    using dict_to_csc_mat_shape[OF assms(1)] assms(2) by (simp add: list_all_iff)
  then show ?thesis using assms(3) by auto
qed

lemma keys_in_range_no_entry:
  assumes "keys_in_range self" "self_n self \<le> j"
  shows "list_all (\<lambda>((row, col), data). row \<noteq> j \<and> col \<noteq> j)
           (self_gmat_data self @ self_cmat_data self)"
  using assms unfolding keys_in_range_def list_all_iff by fastforce

text \<open>
  Claim C10. A call that the self-loop guard drops has already resolved its terminal
  names: if one of them was not in the registry before, it is registered afterwards with
  an index \<open>j\<close> at or above the old node count, and the node count has grown beyond \<open>j\<close>.
  The accumulators are unchanged, so (when their keys were in range) no entry mentions
  \<open>j\<close>. Every materialized matrix has exactly the shape it is asked for, and the shapes
  the queries ask for, \<open>(n - 1, n)\<close>, \<open>(n - 1, n - 1)\<close> and \<open>(n, n)\<close>, grow with \<open>n\<close>.
\<close>

theorem dropped_self_loop_registers_name:
  "(resolve_names [p_name, n_name] self = ([i, i], self') \<and>
    x \<in> {p_name, n_name} \<and> self_node_id self x = None \<longrightarrow>
      add_res res p_name n_name self = (Inr (), self') \<and>
      add_cap cap p_name n_name self = (Inr (), self') \<and>
      (\<exists>j. self_node_id self' x = Some j \<and> self_n self \<le> j \<and> j < self_n self' \<and>
           (keys_in_range self \<longrightarrow>
              list_all (\<lambda>((row, col), data). row \<noteq> j \<and> col \<noteq> j)
                (self_gmat_data self' @ self_cmat_data self')))) \<and>
   (resolve_names [p_name, n_name, cp_name, cn_name] self =
        ([node_p, node_n, node_cp, node_cn], self'') \<and>
    (node_p = node_n \<or> node_cp = node_cn) \<and>
    y \<in> {p_name, n_name, cp_name, cn_name} \<and> self_node_id self y = None \<longrightarrow>
      add_gm gm p_name n_name cp_name cn_name self = (Inr (), self'') \<and>
      (\<exists>j. self_node_id self'' y = Some j \<and> self_n self \<le> j \<and> j < self_n self'' \<and>
           (keys_in_range self \<longrightarrow>
              list_all (\<lambda>((row, col), data). row \<noteq> j \<and> col \<noteq> j)
                (self_gmat_data self'' @ self_cmat_data self'')))) \<and>
   (\<forall>s a b table r c m.
      dict_to_csc_mat table (self_n s - a, self_n s - b) r c = Inr m \<longrightarrow>
        nrows m = nat (self_n s - a) \<and> ncols m = nat (self_n s - b) \<and>
        length (elems m) = nat (self_n s - a) \<and>
        list_all (\<lambda>row. length row = nat (self_n s - b)) (elems m))"
proof -
  have res_cap: "add_res res p_name n_name self = (Inr (), self') \<and>
      add_cap cap p_name n_name self = (Inr (), self') \<and>
      (\<exists>j. self_node_id self' x = Some j \<and> self_n self \<le> j \<and> j < self_n self' \<and>
           (keys_in_range self \<longrightarrow>
              list_all (\<lambda>((row, col), data). row \<noteq> j \<and> col \<noteq> j)
                (self_gmat_data self' @ self_cmat_data self')))"
    if a: "resolve_names [p_name, n_name] self = ([i, i], self') \<and>
      x \<in> {p_name, n_name} \<and> self_node_id self x = None"
  proof -
    have s': "self' = snd (resolve_names [p_name, n_name] self)"
      using a by (metis snd_conv)
    have eq: "fst (get_node_id p_name self) =
        fst (get_node_id n_name (snd (get_node_id p_name self)))"
      and s2: "self' = snd (get_node_id n_name (snd (get_node_id p_name self)))"
      using a unfolding resolve_names_2 by simp_all
    have 1: "add_res res p_name n_name self = (Inr (), self')"
      using eq s2 by (simp add: add_res_def case_prod_beta)
    have 2: "add_cap cap p_name n_name self = (Inr (), self')"
      using eq s2 by (simp add: add_cap_def case_prod_beta)
    obtain j where j: "self_node_id self' x = Some j" "self_n self \<le> j" "j < self_n self'"
      using resolve_names_new[of x "[p_name, n_name]" self] a unfolding s' by auto
    have t: "self_gmat_data self' = self_gmat_data self"
      "self_cmat_data self' = self_cmat_data self"
      unfolding s' by (rule resolve_names_tables)+
    have 3: "\<exists>j. self_node_id self' x = Some j \<and> self_n self \<le> j \<and> j < self_n self' \<and>
           (keys_in_range self \<longrightarrow>
              list_all (\<lambda>((row, col), data). row \<noteq> j \<and> col \<noteq> j)
                (self_gmat_data self' @ self_cmat_data self'))"
      using j keys_in_range_no_entry[of self j] unfolding t by blast
    show ?thesis using 1 2 3 by blast
  qed
  have gm: "add_gm gm p_name n_name cp_name cn_name self = (Inr (), self'') \<and>
      (\<exists>j. self_node_id self'' y = Some j \<and> self_n self \<le> j \<and> j < self_n self'' \<and>
           (keys_in_range self \<longrightarrow>
              list_all (\<lambda>((row, col), data). row \<noteq> j \<and> col \<noteq> j)
                (self_gmat_data self'' @ self_cmat_data self'')))"
    if a: "resolve_names [p_name, n_name, cp_name, cn_name] self =
        ([node_p, node_n, node_cp, node_cn], self'') \<and>
      (node_p = node_n \<or> node_cp = node_cn) \<and>
      y \<in> {p_name, n_name, cp_name, cn_name} \<and> self_node_id self y = None"
  proof -
    have s'': "self'' = snd (resolve_names [p_name, n_name, cp_name, cn_name] self)"
      using a by (metis snd_conv)
    have 1: "add_gm gm p_name n_name cp_name cn_name self = (Inr (), self'')"
      using a unfolding resolve_names_4 by (auto simp add: add_gm_def case_prod_beta Let_def)
    obtain j where j: "self_node_id self'' y = Some j" "self_n self \<le> j" "j < self_n self''"
      using resolve_names_new[of y "[p_name, n_name, cp_name, cn_name]" self] a
      unfolding s'' by auto
    have t: "self_gmat_data self'' = self_gmat_data self"
      "self_cmat_data self'' = self_cmat_data self"
      unfolding s'' by (rule resolve_names_tables)+
    have 2: "\<exists>j. self_node_id self'' y = Some j \<and> self_n self \<le> j \<and> j < self_n self'' \<and>
           (keys_in_range self \<longrightarrow>
              list_all (\<lambda>((row, col), data). row \<noteq> j \<and> col \<noteq> j)
                (self_gmat_data self'' @ self_cmat_data self''))"
      using j keys_in_range_no_entry[of self j] unfolding t by blast
    show ?thesis using 1 2 by blast
  qed
  have shape: "\<forall>s a b table r c m.
      dict_to_csc_mat table (self_n s - a, self_n s - b) r c = Inr m \<longrightarrow>
        nrows m = nat (self_n s - a) \<and> ncols m = nat (self_n s - b) \<and>
        length (elems m) = nat (self_n s - a) \<and>
        list_all (\<lambda>row. length row = nat (self_n s - b)) (elems m)"
    using dict_to_csc_mat_shape by blast
  show ?thesis using res_cap gm shape by blast
qed

theorem dropped_self_loop_registers_name_witness:
  "resolve_names [''y'', ''y''] rc_parallel = ([1, 1], snd (get_node_id ''y'' rc_parallel)) \<and>
   self_node_id rc_parallel ''y'' = None \<and>
   keys_in_range rc_parallel \<and>
   add_res 1 ''y'' ''y'' rc_parallel = (Inr (), snd (get_node_id ''y'' rc_parallel)) \<and>
   add_cap 1 ''y'' ''y'' rc_parallel = (Inr (), snd (get_node_id ''y'' rc_parallel)) \<and>
   self_node_id (snd (get_node_id ''y'' rc_parallel)) ''y'' = Some 1 \<and>
   self_n rc_parallel = 1 \<and> self_n (snd (get_node_id ''y'' rc_parallel)) = 2 \<and>
   resolve_names [''y'', ''y'', ''out'', ''gnd''] rc_parallel =
     ([1, 1, 0, - 1], snd (get_node_id ''y'' rc_parallel)) \<and>
   add_gm 1 ''y'' ''y'' ''out'' ''gnd'' rc_parallel = (Inr (), snd (get_node_id ''y'' rc_parallel)) \<and>
   dict_to_csc_mat (self_gmat_data rc_parallel)
     (self_n rc_parallel - 0, self_n rc_parallel - 0) (- 1) (- 1) =
     Inr \<lparr>is_sparse = True, nrows = 1, ncols = 1, elems = [[1]]\<rparr> \<and>
   dict_to_csc_mat (self_gmat_data (snd (get_node_id ''y'' rc_parallel)))
     (self_n (snd (get_node_id ''y'' rc_parallel)) - 0,
      self_n (snd (get_node_id ''y'' rc_parallel)) - 0) (- 1) (- 1) =
     Inr \<lparr>is_sparse = True, nrows = 2, ncols = 2, elems = [[1, 0], [0, 0]]\<rparr> \<and>
   nrows \<lparr>is_sparse = True, nrows = 2, ncols = 2, elems = [[1, 0], [0, 0 :: real]]\<rparr> =
     nat (self_n (snd (get_node_id ''y'' rc_parallel)) - 0)"
proof -
  let ?s = "snd (get_node_id ''y'' rc_parallel)"
  let ?m = "\<lparr>is_sparse = True, nrows = 2, ncols = 2, elems = [[1, 0], [0, 0 :: real]]\<rparr>"
  have h1: "resolve_names [''y'', ''y''] rc_parallel = ([1, 1], ?s)"
    and h2: "self_node_id rc_parallel ''y'' = None"
    and h3: "keys_in_range rc_parallel"
    and h4: "resolve_names [''y'', ''y'', ''out'', ''gnd''] rc_parallel = ([1, 1, 0, - 1], ?s)"
    and n: "self_n rc_parallel = 1" "self_n ?s = 2" "self_node_id ?s ''y'' = Some 1"
    by (simp_all add: keys_in_range_def eval_defs)
  have m: "dict_to_csc_mat (self_gmat_data rc_parallel)
       (self_n rc_parallel - 0, self_n rc_parallel - 0) (- 1) (- 1) =
       Inr \<lparr>is_sparse = True, nrows = 1, ncols = 1, elems = [[1]]\<rparr>"
    "dict_to_csc_mat (self_gmat_data ?s) (self_n ?s - 0, self_n ?s - 0) (- 1) (- 1) = Inr ?m"
    by (simp_all add: eval_defs)
  note T = dropped_self_loop_registers_name[where self = rc_parallel and p_name = "''y''"
      and n_name = "''y''" and x = "''y''" and i = 1 and self' = ?s and res = 1 and cap = 1
      and cp_name = "''out''" and cn_name = "''gnd''" and node_p = 1 and node_n = 1
      and node_cp = 0 and node_cn = "- 1" and self'' = ?s and y = "''y''" and gm = 1]
  have a: "add_res 1 ''y'' ''y'' rc_parallel = (Inr (), ?s)"
    "add_cap 1 ''y'' ''y'' rc_parallel = (Inr (), ?s)"
    using T h1 h2 by blast+
  have g: "add_gm 1 ''y'' ''y'' ''out'' ''gnd'' rc_parallel = (Inr (), ?s)"
    using T h4 h2 by blast
  have l: "nrows ?m = nat (self_n ?s - 0)"
    using T m(2) by blast
  show ?thesis
    using h1 h2 h3 h4 n m a g l by (simp del: resolve_names.simps)
qed

end
